theory Spec2Isabelle
  imports Complex_Main
begin

section \<open>Strings and numbers of the host language\<close>

text \<open>
  A source string is a sequence of UTF-16 code units. It is modelled as a \<^typ>\<open>string\<close>,
  one \<^typ>\<open>char\<close> per code unit, which covers the code units 0 to 255 (Latin-1). Every
  character test of the source (regular expression classes, the literal keywords, the
  separators of the chunker) is a test on ASCII characters; the only classification that
  looks beyond ASCII is white space, whose members below 256 are listed in
  \<open>isWhitespace\<close>. Source numbers are doubles. Indices, lengths, counters and delays
  are integers far below \<open>2^53\<close>, where double arithmetic is exact, so they are
  \<^typ>\<open>nat\<close> or \<^typ>\<open>int\<close>; scores, temperatures and the numbers of a parsed document
  are \<^typ>\<open>rat\<close>, the exact value of the double.
\<close>

definition digitChar :: "nat \<Rightarrow> char" where
  "digitChar n = ''0123456789'' ! (n mod 10)"

text \<open>Decimal rendering of a non-negative integer, as a template literal renders it.\<close>

fun showNat :: "nat \<Rightarrow> string" where
  "showNat n = (if n < 10 then [digitChar n] else showNat (n div 10) @ [digitChar (n mod 10)])"

declare showNat.simps [simp del]

text \<open>
  White space as \<open>String.prototype.trim\<close> and the class \<open>\s\<close> see it: tab, line feed,
  vertical tab, form feed, carriage return, space and no-break space.
\<close>

definition isWhitespace :: "char \<Rightarrow> bool" where
  "isWhitespace c = (c \<in> set [CHR 0x09, CHR 0x0A, CHR 0x0B, CHR 0x0C, CHR 0x0D, CHR '' '', CHR 0xA0])"

definition trim :: "string \<Rightarrow> string" where
  "trim s = rev (dropWhile isWhitespace (rev (dropWhile isWhitespace s)))"

text \<open>
  \<open>s.lastIndexOf(ch, position)\<close> for a one-character search string: the largest index
  \<open>k \<le> max position 0\<close> with \<open>s[k] = ch\<close>, or \<open>-1\<close>. The scan runs forward and
  remembers the last hit.
\<close>

fun lastIndexUpTo :: "char \<Rightarrow> string \<Rightarrow> int \<Rightarrow> int \<Rightarrow> int \<Rightarrow> int" where
  "lastIndexUpTo ch [] i limit best = best"
| "lastIndexUpTo ch (c # cs) i limit best =
     (if i > limit then best else lastIndexUpTo ch cs (i + 1) limit (if c = ch then i else best))"

definition lastIndexOf :: "string \<Rightarrow> char \<Rightarrow> int \<Rightarrow> int" where
  "lastIndexOf s ch position = lastIndexUpTo ch s 0 (max position 0) (-1)"

fun isPrefixOf :: "string \<Rightarrow> string \<Rightarrow> bool" where
  "isPrefixOf [] s = True"
| "isPrefixOf (p # ps) [] = False"
| "isPrefixOf (p # ps) (c # cs) = (p = c \<and> isPrefixOf ps cs)"

text \<open>\<open>s.indexOf(pat)\<close>: the first index at which \<open>pat\<close> occurs in \<open>s\<close>, or \<open>-1\<close>.\<close>

fun indexOfFrom :: "string \<Rightarrow> string \<Rightarrow> int \<Rightarrow> int" where
  "indexOfFrom pat [] i = (if pat = [] then i else -1)"
| "indexOfFrom pat (c # cs) i = (if isPrefixOf pat (c # cs) then i else indexOfFrom pat cs (i + 1))"

definition indexOf :: "string \<Rightarrow> string \<Rightarrow> int" where
  "indexOf s pat = indexOfFrom pat s 0"

text \<open>
  \<open>s.substring(a, b)\<close>: both bounds are clamped to \<open>0..length\<close> and swapped when out of
  order.
\<close>

definition substring :: "string \<Rightarrow> int \<Rightarrow> int \<Rightarrow> string" where
  "substring s a b =
     (let len = int (length s);
          a' = min (max a 0) len;
          b' = min (max b 0) len;
          lo = min a' b';
          hi = max a' b'
      in take (nat (hi - lo)) (drop (nat lo) s))"

section \<open>Regular expressions of the source\<close>

definition lowerLetters :: string where
  "lowerLetters = ''abcdefghijklmnopqrstuvwxyz''"

definition upperLetters :: string where
  "upperLetters = ''ABCDEFGHIJKLMNOPQRSTUVWXYZ''"

definition digitChars :: string where
  "digitChars = ''0123456789''"

text \<open>
  The flag \<open>i\<close> compares characters after canonicalization, which for a pattern of ASCII
  letters maps \<open>a..z\<close> to \<open>A..Z\<close> and lets no character outside ASCII match an ASCII
  letter.
\<close>

definition canonicalize :: "char \<Rightarrow> char" where
  "canonicalize c = (case map_of (zip lowerLetters upperLetters) c of Some u \<Rightarrow> u | None \<Rightarrow> c)"

text \<open>The class \<open>\w\<close>, which decides the assertion \<open>\b\<close>.\<close>

definition isWordChar :: "char \<Rightarrow> bool" where
  "isWordChar c = (c \<in> set (lowerLetters @ upperLetters @ digitChars @ ''_''))"

definition isDigit :: "char \<Rightarrow> bool" where
  "isDigit c = (c \<in> set digitChars)"

fun isWordCharOpt :: "char option \<Rightarrow> bool" where
  "isWordCharOpt None = False"
| "isWordCharOpt (Some c) = isWordChar c"

text \<open>\<open>\b\<close> between the character before a position and the one after it (\<open>None\<close> at either end
  of the input).\<close>

definition wordBoundary :: "char option \<Rightarrow> char option \<Rightarrow> bool" where
  "wordBoundary before after = (isWordCharOpt before \<noteq> isWordCharOpt after)"

text \<open>A literal of the pattern matched, ignoring case, at the head of the input.\<close>

fun matchesAt :: "string \<Rightarrow> string \<Rightarrow> bool" where
  "matchesAt [] s = True"
| "matchesAt (p # ps) [] = False"
| "matchesAt (p # ps) (c # cs) = (canonicalize p = canonicalize c \<and> matchesAt ps cs)"

fun headOpt :: "string \<Rightarrow> char option" where
  "headOpt [] = None"
| "headOpt (c # cs) = Some c"

text \<open>
  \<open>(w1|w2|...)\b\<close> at the head of the input, for non-empty literals: some alternative
  matches and a word boundary follows the characters it consumed.
\<close>

definition keywordPrefix :: "string list \<Rightarrow> string \<Rightarrow> bool" where
  "keywordPrefix alts s =
     list_ex (\<lambda>w. matchesAt w s
                \<and> wordBoundary (Some (s ! (length w - 1))) (headOpt (drop (length w) s))) alts"

text \<open>
  \<open>/\b(w1|w2|...)\b/i.test(s)\<close>: the pattern is tried at every position of the input;
  \<open>before\<close> is the character in front of the current position.
\<close>

fun searchKeyword :: "string list \<Rightarrow> char option \<Rightarrow> string \<Rightarrow> bool" where
  "searchKeyword alts before [] = False"
| "searchKeyword alts before (c # cs) =
     ((wordBoundary before (Some c) \<and> keywordPrefix alts (c # cs)) \<or> searchKeyword alts (Some c) cs)"

definition testKeyword :: "string list \<Rightarrow> string \<Rightarrow> bool" where
  "testKeyword alts s = searchKeyword alts None s"

section \<open>Values of the host language\<close>

text \<open>
  A value that \<open>JSON.parse\<close> returns. An object is its list of own properties; a number is
  a rational (the validators only test a number for truthiness and compare it with 1,
  which no rounding and no overflow to an infinity changes).
\<close>

datatype json =
    JNull
  | JBool bool
  | JNum rat
  | JStr string
  | JArr "json list"
  | JObj "(string \<times> json) list"

text \<open>
  What reading a property gives: nothing (\<open>undefined\<close>), a built-in function inherited
  from a prototype, or a parsed value.
\<close>

datatype jsval = Undefined | Builtin | Val json

fun truthy :: "jsval \<Rightarrow> bool" where
  "truthy Undefined = False"
| "truthy Builtin = True"
| "truthy (Val JNull) = False"
| "truthy (Val (JBool b)) = b"
| "truthy (Val (JNum n)) = (n \<noteq> 0)"
| "truthy (Val (JStr s)) = (s \<noteq> [])"
| "truthy (Val (JArr xs)) = True"
| "truthy (Val (JObj kvs)) = True"

text \<open>\<open>typeof v === 'object'\<close>: true of \<open>null\<close>, arrays and objects.\<close>

fun typeofObject :: "jsval \<Rightarrow> bool" where
  "typeofObject (Val JNull) = True"
| "typeofObject (Val (JArr xs)) = True"
| "typeofObject (Val (JObj kvs)) = True"
| "typeofObject v = False"

fun isArray :: "jsval \<Rightarrow> bool" where
  "isArray (Val (JArr xs)) = True"
| "isArray v = False"

text \<open>
  Reading the property \<open>k\<close> of a parsed value other than \<open>null\<close>. An object gives its own
  property; arrays and strings have a \<open>length\<close> and indexed elements, and an array
  inherits the method \<open>values\<close>. None of the other names that the source reads
  (\<open>nodes\<close>, \<open>connections\<close>, \<open>name\<close>, \<open>type\<close>, \<open>position\<close>, \<open>parameters\<close>, \<open>node\<close>,
  \<open>components\<close>, \<open>key\<close>, \<open>label\<close>, \<open>data\<close>, \<open>validate\<close>, \<open>required\<close>, \<open>action\<close>,
  \<open>isAmbiguous\<close>, \<open>clarificationPrompt\<close>) exists on a built-in prototype.
\<close>

definition indexKeys :: "nat \<Rightarrow> string list" where
  "indexKeys n = map showNat [0..<n]"

fun getProp :: "json \<Rightarrow> string \<Rightarrow> jsval" where
  "getProp (JObj kvs) k = (case map_of kvs k of Some v \<Rightarrow> Val v | None \<Rightarrow> Undefined)"
| "getProp (JArr xs) k =
     (if k = ''length'' then Val (JNum (of_nat (length xs)))
      else if k = ''values'' then Builtin
      else (case map_of (zip (indexKeys (length xs)) xs) k of Some v \<Rightarrow> Val v | None \<Rightarrow> Undefined))"
| "getProp (JStr s) k =
     (if k = ''length'' then Val (JNum (of_nat (length s)))
      else (case map_of (zip (indexKeys (length s)) s) k of Some c \<Rightarrow> Val (JStr [c]) | None \<Rightarrow> Undefined))"
| "getProp v k = Undefined"

text \<open>
  Reading a property of \<open>null\<close> throws a TypeError. A thrown error is represented by its
  message, here and below.
\<close>

text \<open>
  The built-ins of the host language whose full definition the source does not depend on
  are parameters of the model: \<open>JSON.parse\<close> (\<open>Inl\<close> is the message of its SyntaxError);
  the conversion to a string of a number, an array or an object inside a template literal
  (\<open>Inl\<close>: the conversion throws, as it does for an object whose own \<open>toString\<close> and
  \<open>valueOf\<close> are not functions); the comparison \<open>v > 1\<close> for a string, an array or an
  object \<open>v\<close>, which converts \<open>v\<close> to a number first; and the wording of the TypeErrors
  that the engine throws.
\<close>

record js_runtime =
  jsonParse :: "string \<Rightarrow> string + json"
  toStringOther :: "json \<Rightarrow> string + string"
  greaterThanOneOther :: "json \<Rightarrow> string + bool"
  nullPropertyMessage :: "string \<Rightarrow> string"
  notAFunctionMessage :: "string \<Rightarrow> string"

definition getPropE :: "js_runtime \<Rightarrow> json \<Rightarrow> string \<Rightarrow> string + jsval" where
  "getPropE rt v k = (if v = JNull then Inl (nullPropertyMessage rt k) else Inr (getProp v k))"

text \<open>The conversion \<open>${v}\<close> of a template literal.\<close>

fun toStr :: "js_runtime \<Rightarrow> jsval \<Rightarrow> string + string" where
  "toStr rt Undefined = Inr ''undefined''"
| "toStr rt Builtin = Inr ''function values() { [native code] }''"
| "toStr rt (Val JNull) = Inr ''null''"
| "toStr rt (Val (JBool b)) = Inr (if b then ''true'' else ''false'')"
| "toStr rt (Val (JStr s)) = Inr s"
| "toStr rt (Val v) = toStringOther rt v"

text \<open>\<open>v > 1\<close>.\<close>

fun greaterThanOne :: "js_runtime \<Rightarrow> jsval \<Rightarrow> string + bool" where
  "greaterThanOne rt Undefined = Inr False"
| "greaterThanOne rt Builtin = Inr False"
| "greaterThanOne rt (Val JNull) = Inr False"
| "greaterThanOne rt (Val (JBool b)) = Inr False"
| "greaterThanOne rt (Val (JNum n)) = Inr (n > 1)"
| "greaterThanOne rt (Val v) = greaterThanOneOther rt v"

text \<open>
  Membership in a \<open>Set\<close> compares primitives by value and objects by identity; an array
  or object read from one place of the parsed document is never identical to one read
  from another place.
\<close>

fun isPrimitive :: "json \<Rightarrow> bool" where
  "isPrimitive (JArr xs) = False"
| "isPrimitive (JObj kvs) = False"
| "isPrimitive v = True"

fun setHas :: "json list \<Rightarrow> jsval \<Rightarrow> bool" where
  "setHas members (Val v) = (isPrimitive v \<and> v \<in> set members)"
| "setHas members v = False"

text \<open>
  A workflow of three nodes in which \<open>A\<close> is linked to \<open>B\<close> and \<open>C\<close> is linked to
  nothing: its text and the value that \<open>JSON.parse\<close> returns for it.
\<close>

definition linkedWorkflowText :: string where
  \<open>linkedWorkflowText = ''{"nodes":[{"name":"A","type":"t","position":{"x":0,"y":0},"parameters":{}},{"name":"B","type":"t","position":{"x":1,"y":0},"parameters":{}},{"name":"C","type":"t","position":{"x":2,"y":0},"parameters":{}}], "connections":{"A":{"main":[[{"node":"B","type":"main","index":0}]]}}}''\<close>

definition linkedWorkflow :: json where
  "linkedWorkflow =
     (JObj [(''nodes'', JArr [JObj [(''name'', JStr ''A''), (''type'', JStr ''t''),
                                         (''position'', JObj [(''x'', JNum 0), (''y'', JNum 0)]),
                                         (''parameters'', JObj [])],
                                   JObj [(''name'', JStr ''B''), (''type'', JStr ''t''),
                                         (''position'', JObj [(''x'', JNum 1), (''y'', JNum 0)]),
                                         (''parameters'', JObj [])],
                                   JObj [(''name'', JStr ''C''), (''type'', JStr ''t''),
                                         (''position'', JObj [(''x'', JNum 2), (''y'', JNum 0)]),
                                         (''parameters'', JObj [])]]),
                   (''connections'',
                    JObj [(''A'', JObj [(''main'',
                            JArr [JArr [JObj [(''node'', JStr ''B''), (''type'', JStr ''main''),
                                              (''index'', JNum 0)]]])])])])"

text \<open>
  A runtime for the worked examples: it parses the JSON texts used below and rejects
  every other text; its other built-ins throw.
\<close>

definition exampleParse :: "string \<Rightarrow> string + json" where
  \<open>exampleParse code =
     (if code = ''{"nodes": [], "connections": {}}'' then
        Inr (JObj [(''nodes'', JArr []), (''connections'', JObj [])])
      else if code = ''{"nodes":[{"name":"A","type":"t","position":{"x":0,"y":0}}], "connections":{}}'' then
        Inr (JObj [(''nodes'', JArr [JObj [(''name'', JStr ''A''), (''type'', JStr ''t''),
                                         (''position'', JObj [(''x'', JNum 0), (''y'', JNum 0)])]]),
                   (''connections'', JObj [])])
      else if code = linkedWorkflowText then Inr linkedWorkflow
      else Inl ''Unexpected token'')\<close>

definition exampleRuntime :: js_runtime where
  "exampleRuntime =
     \<lparr>jsonParse = exampleParse,
      toStringOther = (\<lambda>v. Inl ''Cannot convert object to primitive value''),
      greaterThanOneOther = (\<lambda>v. Inl ''Cannot convert object to primitive value''),
      nullPropertyMessage = (\<lambda>k. ''Cannot read properties of null (reading '' @ [CHR 0x27] @ k @ [CHR 0x27] @ '')''),
      notAFunctionMessage = (\<lambda>k. k @ '' is not a function'')\<rparr>"

section \<open>Completion client (LLMClient)\<close>

text \<open>
  An error thrown by the completion call is an object of which the client reads four
  properties: \<open>name\<close>, \<open>message\<close>, \<open>status\<close> (a number when present) and \<open>code\<close>
  (a number, as on a DOMException, or a string, as on a network error, when present).
\<close>

record api_error =
  err_name :: string
  err_message :: string
  err_status :: "int option"
  err_code :: "(int + string) option"

text \<open>
  The part of a successful response that the client reads:
  \<open>response.choices[0]?.message?.content\<close>, \<open>response.usage?.total_tokens\<close> and
  \<open>response.model\<close>.
\<close>

record raw_response =
  raw_content :: "string option"
  raw_total_tokens :: "nat option"
  raw_model :: string

record LLMResponse =
  content :: string
  tokensUsed :: nat
  model :: string

record RetryConfig =
  maxRetries :: nat
  initialDelayMs :: nat
  maxDelayMs :: nat
  timeoutMs :: nat

definition retryConfig :: RetryConfig where
  "retryConfig = \<lparr>maxRetries = 3, initialDelayMs = 1000, maxDelayMs = 10000, timeoutMs = 30000\<rparr>"

text \<open>
  \<open>Math.min(initialDelayMs * Math.pow(2, attempt), maxDelayMs)\<close>. The product is a power
  of two times the initial delay, which a double holds exactly until it overflows to
  \<open>Infinity\<close>; the minimum is then \<open>maxDelayMs\<close>, as it is here.
\<close>

definition calculateBackoffDelay :: "RetryConfig \<Rightarrow> nat \<Rightarrow> nat" where
  "calculateBackoffDelay cfg attempt =
     (let delay = initialDelayMs cfg * 2 ^ attempt in min delay (maxDelayMs cfg))"

text \<open>
  \<open>if (error?.status)\<close> is a truthiness test: an absent status and the status 0 both
  skip the first branch.
\<close>

definition isRetryableError :: "api_error \<Rightarrow> bool" where
  "isRetryableError e =
     (case err_status e of
        Some s \<Rightarrow>
          (if s \<noteq> 0 then s = 429 \<or> s \<ge> 500
           else err_code e = Some (Inr ''ECONNRESET'') \<or> err_code e = Some (Inr ''ETIMEDOUT''))
      | None \<Rightarrow> err_code e = Some (Inr ''ECONNRESET'') \<or> err_code e = Some (Inr ''ETIMEDOUT''))"

text \<open>
  One run of \<open>generateCompletion\<close>: what it returns or throws (\<open>Inl\<close> is the message of the
  thrown \<open>Error\<close>), how many requests it sent, and the delays it slept, in order.
\<close>

record completion_run =
  outcome :: "string + LLMResponse"
  calls :: nat
  sleeps :: "nat list"

definition toLLMResponse :: "raw_response \<Rightarrow> LLMResponse" where
  "toLLMResponse r =
     \<lparr>content = (case raw_content r of None \<Rightarrow> [] | Some c \<Rightarrow> c),
      tokensUsed = (case raw_total_tokens r of None \<Rightarrow> 0 | Some t \<Rightarrow> t),
      model = raw_model r\<rparr>"

text \<open>\<open>lastError?.message || 'Unknown error'\<close>: an empty message is falsy.\<close>

definition lastErrorMessage :: "api_error option \<Rightarrow> string" where
  "lastErrorMessage le =
     (case le of
        None \<Rightarrow> ''Unknown error''
      | Some e \<Rightarrow> (if err_message e = [] then ''Unknown error'' else err_message e))"

definition allRetriesFailed :: "RetryConfig \<Rightarrow> api_error option \<Rightarrow> string" where
  "allRetriesFailed cfg le =
     ''LLM request failed after '' @ showNat (maxRetries cfg + 1) @ '' attempts: '' @ lastErrorMessage le"

text \<open>
  The \<open>for\<close> loop of \<open>generateCompletion\<close>. The remote service is a function from the
  attempt number to what the request of that attempt does: it throws (\<open>Inl\<close>) or it
  answers (\<open>Inr\<close>). The per-attempt timer aborts the request, which then throws an error
  whose \<open>name\<close> is \<open>AbortError\<close>.
\<close>

function retryLoop ::
  "RetryConfig \<Rightarrow> (nat \<Rightarrow> api_error + raw_response) \<Rightarrow> nat \<Rightarrow> api_error option \<Rightarrow> nat list
     \<Rightarrow> completion_run" where
  "retryLoop cfg api attempt lastError slept =
     (if attempt \<le> maxRetries cfg then
        (case api attempt of
           Inr response \<Rightarrow>
             \<lparr>outcome = Inr (toLLMResponse response), calls = attempt + 1, sleeps = slept\<rparr>
         | Inl error \<Rightarrow>
             (if attempt = maxRetries cfg \<or> \<not> isRetryableError error then
                \<lparr>outcome = Inl (allRetriesFailed cfg (Some error)), calls = attempt + 1, sleeps = slept\<rparr>
              else retryLoop cfg api (attempt + 1) (Some error)
                     (slept @ [calculateBackoffDelay cfg attempt])))
      else \<lparr>outcome = Inl (allRetriesFailed cfg lastError), calls = attempt, sleeps = slept\<rparr>)"
  by pat_completeness auto
termination
  by (relation "measure (\<lambda>(cfg, api, attempt, lastError, slept). maxRetries cfg + 1 - attempt)") auto

declare retryLoop.simps [simp del]

definition generateCompletion :: "(nat \<Rightarrow> api_error + raw_response) \<Rightarrow> completion_run" where
  "generateCompletion api = retryLoop retryConfig api 0 None []"

text \<open>The error of a request aborted by the timer (a DOMException: no status, numeric code 20).\<close>

definition abortError :: api_error where
  "abortError = \<lparr>err_name = ''AbortError'', err_message = ''This operation was aborted'',
                  err_status = None, err_code = Some (Inl 20)\<rparr>"

definition httpError :: "int \<Rightarrow> string \<Rightarrow> api_error" where
  "httpError s m = \<lparr>err_name = ''Error'', err_message = m, err_status = Some s, err_code = None\<rparr>"

section \<open>Chunker (RAGEngine.chunkText)\<close>

text \<open>\<open>text.replace(/\s+/g, ' ')\<close>: every maximal run of white space becomes one space.\<close>

fun collapseFrom :: "bool \<Rightarrow> string \<Rightarrow> string" where
  "collapseFrom inRun [] = []"
| "collapseFrom inRun (c # cs) =
     (if isWhitespace c then (if inRun then collapseFrom True cs else CHR '' '' # collapseFrom True cs)
      else c # collapseFrom False cs)"

definition collapseWhitespace :: "string \<Rightarrow> string" where
  "collapseWhitespace s = collapseFrom False s"

definition chunkSize :: int where
  "chunkSize = 1000"

definition chunkOverlap :: int where
  "chunkOverlap = 200"

text \<open>The end index that one iteration of the loop settles on for the window at \<open>startIndex\<close>.\<close>

definition chunkEnd :: "string \<Rightarrow> int \<Rightarrow> int" where
  "chunkEnd normalizedText startIndex =
     (let endIndex = startIndex + chunkSize in
      if endIndex < int (length normalizedText) then
        (let sentenceEnd = lastIndexOf normalizedText (CHR ''.'') endIndex;
             exclamationEnd = lastIndexOf normalizedText (CHR ''!'') endIndex;
             questionEnd = lastIndexOf normalizedText (CHR ''?'') endIndex;
             maxSentenceEnd = max (max sentenceEnd exclamationEnd) questionEnd
         in if maxSentenceEnd > startIndex + chunkSize div 2 then maxSentenceEnd + 1
            else (let spaceIndex = lastIndexOf normalizedText (CHR '' '') endIndex
                  in if spaceIndex > startIndex then spaceIndex else endIndex))
      else endIndex)"

text \<open>
  The body of the \<open>while\<close> loop: from the start index and the chunks pushed so far to the
  next start index and the chunks after this iteration.
\<close>

definition chunkStep :: "string \<Rightarrow> int \<Rightarrow> string list \<Rightarrow> int \<times> string list" where
  "chunkStep normalizedText startIndex chunks =
     (let endIndex = chunkEnd normalizedText startIndex;
          chunk = trim (substring normalizedText startIndex endIndex);
          chunks' = (if length chunk > 0 then chunks @ [chunk] else chunks);
          startIndex' = endIndex - chunkOverlap;
          lastChunkIndex = (if length chunks' > 0 then indexOf normalizedText (last chunks') else 0)
      in (if startIndex' \<le> lastChunkIndex then endIndex else startIndex', chunks'))"

text \<open>
  The loop has no bound in the source, so it is a partial function: \<open>None\<close> means that it
  never exits.
\<close>

partial_function (option) chunkLoop :: "string \<Rightarrow> int \<Rightarrow> string list \<Rightarrow> string list option" where
  "chunkLoop normalizedText startIndex chunks =
     (if startIndex < int (length normalizedText) then
        (case chunkStep normalizedText startIndex chunks of
           (startIndex', chunks') \<Rightarrow> chunkLoop normalizedText startIndex' chunks')
      else Some chunks)"

declare chunkLoop.simps [code]

definition chunkText :: "string \<Rightarrow> string list option" where
  "chunkText text =
     (let normalizedText = trim (collapseWhitespace text) in
      if int (length normalizedText) \<le> chunkSize then Some [normalizedText]
      else chunkLoop normalizedText 0 [])"

text \<open>
  Two documents used below. In \<open>stallingText\<close> a 199-letter word is followed by the same
  word again and then by a 1000-letter word; in \<open>overlongText\<close> a full stop sits right
  after the first 1000 letters.
\<close>

definition stallingText :: string where
  "stallingText =
     replicate 199 (CHR ''a'') @ CHR '' '' # replicate 199 (CHR ''a'') @ CHR '' '' # replicate 1000 (CHR ''x'')"

definition overlongText :: string where
  "overlongText = replicate 1000 (CHR ''a'') @ ''.a''"

text \<open>
  A text with no white space and no sentence terminator, the input on which the loop can
  only make hard cuts.
\<close>

definition plainText :: "string \<Rightarrow> bool" where
  "plainText t =
     list_all (\<lambda>c. \<not> isWhitespace c \<and> c \<noteq> CHR ''.'' \<and> c \<noteq> CHR ''!'' \<and> c \<noteq> CHR ''?'') t"

section \<open>Retriever (RAGEngine.retrieveContext, buildContextString)\<close>

record ContextChunk =
  chunkContent :: string
  source :: string
  relevanceScore :: rat
  metaVersionId :: string
  metaFileId :: string
  metaFilename :: string

text \<open>
  A hit of the vector search. Every point of the collection is written by the indexing
  pipeline with a payload that holds \<open>content\<close>, \<open>versionId\<close>, \<open>fileId\<close> and \<open>filename\<close>,
  and the search asks for the payload, so a hit carries these four strings and its score.
\<close>

record SearchHit =
  score :: rat
  payloadContent :: string
  payloadVersionId :: string
  payloadFileId :: string
  payloadFilename :: string

text \<open>
  The two remote services behind the retriever: the embedding model (\<open>Inl\<close> when the call
  fails) and the vector search, filtered by version and limited to \<open>topK\<close> hits.
\<close>

record Services =
  embed :: "string \<Rightarrow> string + rat list"
  search :: "rat list \<Rightarrow> string \<Rightarrow> nat \<Rightarrow> string + SearchHit list"

definition generateEmbedding :: "Services \<Rightarrow> string \<Rightarrow> string + rat list" where
  "generateEmbedding sv text =
     (case embed sv text of Inl e \<Rightarrow> Inl ''Failed to generate embedding'' | Inr v \<Rightarrow> Inr v)"

definition toContextChunk :: "SearchHit \<Rightarrow> ContextChunk" where
  "toContextChunk hit =
     \<lparr>chunkContent = payloadContent hit, source = payloadFilename hit,
      relevanceScore = (if score hit \<noteq> 0 then score hit else 0),
      metaVersionId = payloadVersionId hit, metaFileId = payloadFileId hit,
      metaFilename = payloadFilename hit\<rparr>"

definition retrieveContext :: "Services \<Rightarrow> string \<Rightarrow> string \<Rightarrow> nat \<Rightarrow> string + ContextChunk list" where
  "retrieveContext sv query versionId topK =
     (case generateEmbedding sv query of
        Inl e \<Rightarrow> Inl ''Failed to retrieve context''
      | Inr queryEmbedding \<Rightarrow>
          (case search sv queryEmbedding versionId topK of
             Inl e \<Rightarrow> Inl ''Failed to retrieve context''
           | Inr searchResults \<Rightarrow> Inr (map toContextChunk searchResults)))"

text \<open>
  \<open>x.toFixed(3)\<close> for a number below \<open>10^21\<close> in absolute value: the closest multiple of
  one thousandth, the larger one on a tie, printed with three decimals.
\<close>

definition toFixed3 :: "rat \<Rightarrow> string" where
  "toFixed3 x =
     (let n = nat \<lfloor>\<bar>x\<bar> * 1000 + 1 / 2\<rfloor> in
      (if x < 0 then ''-'' else []) @ showNat (n div 1000) @ ''.''
        @ [digitChar (n div 100 mod 10), digitChar (n div 10 mod 10), digitChar (n mod 10)])"

text \<open>\<open>parts.join(separator)\<close>.\<close>

fun joinWith :: "string \<Rightarrow> string list \<Rightarrow> string" where
  "joinWith separator [] = []"
| "joinWith separator [p] = p"
| "joinWith separator (p # q # ps) = p @ separator @ joinWith separator (q # ps)"

definition buildContextString :: "ContextChunk list \<Rightarrow> string" where
  "buildContextString chunks =
     (if chunks = [] then ''No relevant context found.''
      else joinWith ''\<newline>\<newline>---\<newline>\<newline>''
             (map (\<lambda>chunk. ''[Source: '' @ source chunk @ '', Relevance: ''
                             @ toFixed3 (relevanceScore chunk) @ '']\<newline>'' @ chunkContent chunk) chunks))"

section \<open>Prompt templates\<close>

record PromptTemplate =
  systemPrompt :: string
  buildUserPrompt :: "string \<Rightarrow> string \<Rightarrow> string"

definition sqlTemplate :: PromptTemplate where
  \<open>sqlTemplate =
     \<lparr>systemPrompt = ''You are an expert SQL query generator. Your task is to generate syntactically correct, efficient SQL queries based on user requests and provided database schema context.\<newline>\<newline>Guidelines:\<newline>- Generate only valid SQL syntax\<newline>- Use table and column names exactly as they appear in the DDL context\<newline>- Include helpful comments explaining the query logic\<newline>- Optimize for readability and performance\<newline>- Use appropriate JOINs, WHERE clauses, and aggregations\<newline>- Return ONLY the SQL query without any additional explanation or markdown formatting\<newline>- If the request references non-existent tables or columns, explain the error clearly'',
      buildUserPrompt = (\<lambda>contextText userRequest. ''Database Schema Context:\<newline>'' @ contextText @ ''\<newline>\<newline>User Request:\<newline>'' @ userRequest @ ''\<newline>\<newline>Generate a SQL query that fulfills the user's request. Return only the SQL code with inline comments.'')\<rparr>\<close>

definition n8nTemplate :: PromptTemplate where
  \<open>n8nTemplate =
     \<lparr>systemPrompt = ''You are an expert n8n workflow automation specialist. Your task is to generate valid n8n workflow JSON configurations based on user requests and provided context.\<newline>\<newline>Guidelines:\<newline>- Generate valid n8n workflow JSON that can be imported directly\<newline>- Configure appropriate nodes based on the user's automation requirements\<newline>- Establish correct connections between nodes with proper input/output mappings\<newline>- Include descriptive node names and helpful notes\<newline>- Use realistic parameter values and configurations\<newline>- Follow n8n best practices for error handling and data transformation\<newline>- Return ONLY the JSON workflow without any additional explanation or markdown formatting\<newline>- Ensure the JSON is properly formatted and valid'',
      buildUserPrompt = (\<lambda>contextText userRequest. ''Context Information:\<newline>'' @ contextText @ ''\<newline>\<newline>User Request:\<newline>'' @ userRequest @ ''\<newline>\<newline>Generate a complete n8n workflow JSON that fulfills the user's request. Return only the JSON code.'')\<rparr>\<close>

definition formioTemplate :: PromptTemplate where
  \<open>formioTemplate =
     \<lparr>systemPrompt = ''You are an expert Form.io form designer. Your task is to generate valid Form.io form JSON configurations based on user requests and provided context.\<newline>\<newline>Guidelines:\<newline>- Generate valid Form.io form JSON that can be used directly\<newline>- Include appropriate field types (textfield, email, number, select, checkbox, etc.)\<newline>- Configure validation rules where applicable (required, email format, min/max length, etc.)\<newline>- Organize fields in a logical layout with proper labels and placeholders\<newline>- Use appropriate component keys following naming conventions\<newline>- Include helpful descriptions and tooltips where needed\<newline>- Follow Form.io best practices for accessibility and user experience\<newline>- Return ONLY the JSON form definition without any additional explanation or markdown formatting\<newline>- Ensure the JSON is properly formatted and valid'',
      buildUserPrompt = (\<lambda>contextText userRequest. ''Context Information:\<newline>'' @ contextText @ ''\<newline>\<newline>User Request:\<newline>'' @ userRequest @ ''\<newline>\<newline>Generate a complete Form.io form JSON that fulfills the user's request. Return only the JSON code.'')\<rparr>\<close>

text \<open>\<open>getPromptTemplate\<close> throws on an output type outside the three known ones.\<close>

definition getPromptTemplate :: "string \<Rightarrow> string + PromptTemplate" where
  "getPromptTemplate ot =
     (if ot = ''sql'' then Inr sqlTemplate
      else if ot = ''n8n'' then Inr n8nTemplate
      else if ot = ''formio'' then Inr formioTemplate
      else Inl (''Unknown output type: '' @ ot))"

definition buildPrompts :: "string \<Rightarrow> string \<Rightarrow> string \<Rightarrow> string + string \<times> string" where
  "buildPrompts ot contextText userRequest =
     (case getPromptTemplate ot of
        Inl e \<Rightarrow> Inl e
      | Inr template \<Rightarrow> Inr (systemPrompt template, buildUserPrompt template contextText userRequest))"

section \<open>Output validator\<close>

record ValidationResult =
  isValid :: bool
  errors :: "string list"
  suggestions :: "string list"

text \<open>
  The two arrays \<open>errors\<close> and \<open>suggestions\<close> that a validator fills, in this order, as
  explicit state.
\<close>

type_synonym vstate = "string list \<times> string list"

definition pushError :: "string \<Rightarrow> vstate \<Rightarrow> vstate" where
  "pushError msg st = (fst st @ [msg], snd st)"

definition pushSuggestion :: "string \<Rightarrow> vstate \<Rightarrow> vstate" where
  "pushSuggestion msg st = (fst st, snd st @ [msg])"

subsection \<open>SQL\<close>

definition sqlKeywords :: "string list" where
  "sqlKeywords = [''SELECT'', ''INSERT'', ''UPDATE'', ''DELETE'', ''CREATE'', ''ALTER'', ''DROP'', ''WITH'']"

definition countChar :: "char \<Rightarrow> string \<Rightarrow> nat" where
  "countChar ch s = length (filter (\<lambda>c. c = ch) s)"

text \<open>
  \<open>SELECT\s+[\d'"][^;]*$\<close> at the head of the input: the keyword, at least one white
  space character, a digit or a quote character, and no semicolon from there to the end.
\<close>

definition simpleSelectAt :: "string \<Rightarrow> bool" where
  "simpleSelectAt s =
     (matchesAt ''SELECT'' s \<and>
      (let afterKeyword = drop 6 s; afterSpace = dropWhile isWhitespace afterKeyword in
       afterKeyword \<noteq> [] \<and> isWhitespace (hd afterKeyword) \<and>
       (case afterSpace of
          [] \<Rightarrow> False
        | c # rest \<Rightarrow> (isDigit c \<or> c = CHR 0x27 \<or> c = CHR 0x22) \<and> CHR '';'' \<notin> set rest)))"

fun isSimpleSelect :: "string \<Rightarrow> bool" where
  "isSimpleSelect [] = False"
| "isSimpleSelect (c # cs) = (simpleSelectAt (c # cs) \<or> isSimpleSelect cs)"

text \<open>\<open>/\$\{|\$\(|`/.test(s)\<close>.\<close>

fun hasTemplateSyntax :: "string \<Rightarrow> bool" where
  "hasTemplateSyntax [] = False"
| "hasTemplateSyntax (c # cs) =
     (c = CHR 0x60
      \<or> (c = CHR ''$'' \<and> (case cs of [] \<Rightarrow> False | d # ds \<Rightarrow> d = CHR ''{'' \<or> d = CHR ''(''))
      \<or> hasTemplateSyntax cs)"

definition validateSQL :: "string \<Rightarrow> ValidationResult" where
  \<open>validateSQL code =
     (let trimmedCode = trim code in
      if trimmedCode = [] then
        \<lparr>isValid = False, errors = [''Generated SQL is empty''], suggestions = []\<rparr>
      else
        (let st0 = ([], []);
             st1 = (if \<not> testKeyword sqlKeywords trimmedCode then
                      pushSuggestion ''Ensure the request clearly describes a database operation''
                        (pushError ''Generated code does not appear to be valid SQL'' st0)
                    else st0);
             openParens = countChar (CHR ''('') trimmedCode;
             closeParens = countChar (CHR '')'') trimmedCode;
             st2 = (if openParens \<noteq> closeParens then
                      pushSuggestion ''Check for missing opening or closing parentheses''
                        (pushError ''Unbalanced parentheses in SQL query'' st1)
                    else st1);
             singleQuotes = countChar (CHR 0x27) trimmedCode;
             st3 = (if singleQuotes mod 2 \<noteq> 0 then
                      pushSuggestion ''Check for missing closing quotes''
                        (pushError ''Unterminated string literal in SQL query'' st2)
                    else st2);
             st4 = (if testKeyword [''SELECT''] trimmedCode \<and> \<not> testKeyword [''FROM''] trimmedCode then
                      (if \<not> isSimpleSelect trimmedCode then
                         pushSuggestion ''Add a FROM clause to specify the table(s) to query''
                           (pushError ''SELECT statement missing FROM clause'' st3)
                       else st3)
                    else st3);
             st5 = (if hasTemplateSyntax trimmedCode then
                      pushSuggestion ''Generated SQL contains template literals or shell syntax - verify this is intentional'' st4
                    else st4)
         in \<lparr>isValid = (fst st5 = []), errors = fst st5, suggestions = snd st5\<rparr>))\<close>

text \<open>
  The exception as the specification words it, for comparison with \<open>isSimpleSelect\<close>
  above: a simple literal select is \<open>SELECT <literal>\<close> with nothing else, that is the
  keyword, white space and one literal (digits with an optional fraction, or a quoted
  string).
\<close>

definition specNumberLiteral :: "string \<Rightarrow> bool" where
  "specNumberLiteral s =
     (let whole = takeWhile isDigit s; rest = dropWhile isDigit s in
      whole \<noteq> [] \<and> (rest = [] \<or> (hd rest = CHR ''.'' \<and> tl rest \<noteq> [] \<and> list_all isDigit (tl rest))))"

definition specStringLiteral :: "string \<Rightarrow> bool" where
  "specStringLiteral s =
     (length s \<ge> 2 \<and> (hd s = CHR 0x27 \<or> hd s = CHR 0x22) \<and> last s = hd s
      \<and> hd s \<notin> set (butlast (tl s)))"

definition specSimpleLiteralSelect :: "string \<Rightarrow> bool" where
  "specSimpleLiteralSelect s =
     (matchesAt ''SELECT'' s \<and>
      (let afterKeyword = drop 6 s; literal = dropWhile isWhitespace afterKeyword in
       afterKeyword \<noteq> [] \<and> isWhitespace (hd afterKeyword) \<and>
       (specNumberLiteral literal \<or> specStringLiteral literal)))"

subsection \<open>Statements that may throw inside a \<open>try\<close> block\<close>

text \<open>
  Inside the \<open>try\<close> block of a JSON validator a statement changes the two arrays and may
  throw; what was pushed before the throw stays in the arrays, which the \<open>catch\<close> block
  then extends. A statement maps the arrays to the message of the error thrown, if any,
  and the arrays afterwards.
\<close>

type_synonym stmt = "vstate \<Rightarrow> string option \<times> vstate"

definition skip :: stmt where
  "skip st = (None, st)"

definition throw :: "string \<Rightarrow> stmt" where
  "throw msg st = (Some msg, st)"

definition addError :: "string \<Rightarrow> stmt" where
  "addError msg st = (None, pushError msg st)"

definition addSuggestion :: "string \<Rightarrow> stmt" where
  "addSuggestion msg st = (None, pushSuggestion msg st)"

definition seq :: "stmt \<Rightarrow> stmt \<Rightarrow> stmt" where
  "seq f g st = (case f st of (None, st') \<Rightarrow> g st' | (Some e, st') \<Rightarrow> (Some e, st'))"

definition ifThen :: "bool \<Rightarrow> stmt \<Rightarrow> stmt" where
  "ifThen c f = (if c then f else skip)"

text \<open>An expression that may throw, followed by the statement that uses its value.\<close>

definition withE :: "string + 'a \<Rightarrow> ('a \<Rightarrow> stmt) \<Rightarrow> stmt" where
  "withE r k = (case r of Inl e \<Rightarrow> throw e | Inr v \<Rightarrow> k v)"

text \<open>\<open>xs.forEach((x, index) => ...)\<close>.\<close>

fun forEachFrom :: "(json \<Rightarrow> nat \<Rightarrow> stmt) \<Rightarrow> json list \<Rightarrow> nat \<Rightarrow> stmt" where
  "forEachFrom body [] index = skip"
| "forEachFrom body (x # xs) index = seq (body x index) (forEachFrom body xs (index + 1))"

definition forEach :: "(json \<Rightarrow> nat \<Rightarrow> stmt) \<Rightarrow> json list \<Rightarrow> stmt" where
  "forEach body xs = forEachFrom body xs 0"

text \<open>Reading a property of the value of an expression known to be truthy.\<close>

fun getPropV :: "jsval \<Rightarrow> string \<Rightarrow> jsval" where
  "getPropV (Val v) k = getProp v k"
| "getPropV v k = Undefined"

fun elements :: "jsval \<Rightarrow> json list" where
  "elements (Val (JArr xs)) = xs"
| "elements v = []"

text \<open>\<open>Object.keys\<close> and \<open>Object.values\<close> of a truthy value.\<close>

fun ownKeys :: "json \<Rightarrow> string list" where
  "ownKeys (JObj kvs) = remdups (map fst kvs)"
| "ownKeys (JArr xs) = indexKeys (length xs)"
| "ownKeys (JStr s) = indexKeys (length s)"
| "ownKeys v = []"

fun ownValues :: "json \<Rightarrow> json list" where
  "ownValues (JObj kvs) = map (\<lambda>k. the (map_of kvs k)) (remdups (map fst kvs))"
| "ownValues (JArr xs) = xs"
| "ownValues (JStr s) = map (\<lambda>c. JStr [c]) s"
| "ownValues v = []"

text \<open>The \<open>catch\<close> block and the final \<open>return\<close> shared by the two JSON validators.\<close>

definition invalidJson :: "string \<Rightarrow> vstate \<Rightarrow> ValidationResult" where
  "invalidJson message st =
     \<lparr>isValid = False,
      errors = fst st @ [''Invalid JSON: '' @ message],
      suggestions = snd st @ [''Ensure the generated code is valid JSON format'']\<rparr>"

definition finish :: "string option \<times> vstate \<Rightarrow> ValidationResult" where
  "finish r =
     (case r of
        (Some message, st) \<Rightarrow> invalidJson message st
      | (None, st) \<Rightarrow> \<lparr>isValid = (fst st = []), errors = fst st, suggestions = snd st\<rparr>)"

subsection \<open>n8n workflows\<close>

definition checkNode :: "js_runtime \<Rightarrow> json \<Rightarrow> nat \<Rightarrow> stmt" where
  \<open>checkNode rt node index =
     withE (getPropE rt node ''name'') (\<lambda>name.
       seq (ifThen (\<not> truthy name)
              (addError (''Node at index '' @ showNat index @ '' is missing a "name" property'')))
      (seq (ifThen (\<not> truthy (getProp node ''type''))
              (addError (''Node at index '' @ showNat index @ '' is missing a "type" property'')))
      (seq (ifThen (\<not> truthy (getProp node ''position'') \<or> \<not> typeofObject (getProp node ''position''))
              (addError (''Node at index '' @ showNat index @ '' is missing valid "position" coordinates'')))
           (ifThen (\<not> truthy (getProp node ''parameters'') \<or> \<not> typeofObject (getProp node ''parameters''))
              (withE (if truthy name then toStr rt name else Inr (showNat index)) (\<lambda>label.
                 addSuggestion (''Node "'' @ label @ ''" has no parameters - verify this is intentional'')))))))\<close>

text \<open>
  The targets named in one entry of \<open>connections\<close>: every truthy \<open>c.node\<close> of every
  element \<open>c\<close> of every array nested in an array that is a property value of the entry.
\<close>

definition targetsOf :: "json \<Rightarrow> json list" where
  "targetsOf nodeConnections =
     concat (map (\<lambda>connections.
       (if isArray (Val connections) then
          concat (map (\<lambda>conn.
            (if isArray (Val conn) then
               concat (map (\<lambda>c.
                 (if truthy (Val c) \<and> truthy (getProp c ''node'')
                  then (case getProp c ''node'' of Val n \<Rightarrow> [n] | _ \<Rightarrow> [])
                  else [])) (elements (Val conn)))
             else [])) (elements (Val connections)))
        else [])) (ownValues nodeConnections))"

text \<open>The set \<open>connectedNodes\<close>: every key of \<open>connections\<close> and every target.\<close>

definition connectedNodes :: "json \<Rightarrow> json list" where
  "connectedNodes connections =
     concat (map (\<lambda>nodeName.
       JStr nodeName #
       (let nodeConnections = getProp connections nodeName in
        if truthy nodeConnections \<and> typeofObject nodeConnections
        then (case nodeConnections of Val v \<Rightarrow> targetsOf v | _ \<Rightarrow> [])
        else [])) (ownKeys connections))"

fun connectedNodesOf :: "jsval \<Rightarrow> json list" where
  "connectedNodesOf (Val c) = connectedNodes c"
| "connectedNodesOf v = []"

definition isolatedNode :: "js_runtime \<Rightarrow> json list \<Rightarrow> json \<Rightarrow> nat \<Rightarrow> stmt" where
  \<open>isolatedNode rt linked node index =
     withE (getPropE rt node ''name'') (\<lambda>name.
       ifThen (\<not> setHas linked name)
         (withE (toStr rt name) (\<lambda>shown.
            addSuggestion (''Node "'' @ shown @ ''" appears to be isolated (no connections)''))))\<close>

text \<open>
  The block that looks for isolated nodes. It first fills \<open>connectedNodes\<close> and then
  calls \<open>workflow.nodes.forEach\<close>, which throws when \<open>nodes\<close> is not an array.
\<close>

definition checkIsolated :: "js_runtime \<Rightarrow> jsval \<Rightarrow> jsval \<Rightarrow> stmt" where
  "checkIsolated rt nodes connections =
     (if truthy nodes \<and> truthy connections then
        withE (greaterThanOne rt (getPropV nodes ''length'')) (\<lambda>several.
          ifThen several
            (case nodes of
               Val (JArr ns) \<Rightarrow> forEach (isolatedNode rt (connectedNodesOf connections)) ns
             | _ \<Rightarrow> throw (notAFunctionMessage rt ''workflow.nodes.forEach'')))
      else skip)"

definition validateN8nBody :: "js_runtime \<Rightarrow> json \<Rightarrow> stmt" where
  \<open>validateN8nBody rt workflow =
     withE (getPropE rt workflow ''nodes'') (\<lambda>nodes.
       seq (if \<not> truthy nodes \<or> \<not> isArray nodes then
              addError ''n8n workflow must contain a "nodes" array''
            else ifThen (elements nodes = []) (addError ''n8n workflow must contain at least one node''))
      (seq (ifThen (\<not> truthy (getProp workflow ''connections'')
                  \<or> \<not> typeofObject (getProp workflow ''connections''))
              (addError ''n8n workflow must contain a "connections" object''))
      (seq (ifThen (truthy nodes \<and> isArray nodes) (forEach (checkNode rt) (elements nodes)))
           (checkIsolated rt nodes (getProp workflow ''connections'')))))\<close>

definition validateN8nWorkflow :: "js_runtime \<Rightarrow> string \<Rightarrow> ValidationResult" where
  "validateN8nWorkflow rt code =
     (case jsonParse rt code of
        Inl message \<Rightarrow> invalidJson message ([], [])
      | Inr workflow \<Rightarrow> finish (validateN8nBody rt workflow ([], [])))"

subsection \<open>Form.io forms\<close>

text \<open>\<open>/^[a-zA-Z_][a-zA-Z0-9_]*$/.test(s)\<close>.\<close>

definition validKey :: "string \<Rightarrow> bool" where
  "validKey s =
     (case s of
        [] \<Rightarrow> False
      | c # cs \<Rightarrow> c \<in> set (lowerLetters @ upperLetters @ ''_'') \<and> list_all isWordChar cs)"

text \<open>
  The body of the loop over the components. Besides the two arrays it updates the set
  \<open>componentKeys\<close>, which is returned with the outcome of the statement.
\<close>

definition checkKey :: "js_runtime \<Rightarrow> jsval \<Rightarrow> nat \<Rightarrow> json list \<Rightarrow> stmt" where
  \<open>checkKey rt key index componentKeys =
     (if \<not> truthy key then
        addError (''Component at index '' @ showNat index @ '' is missing a "key" property'')
      else
        seq (ifThen (setHas componentKeys key)
               (withE (toStr rt key) (\<lambda>shown.
                  addError (''Duplicate component key found: "'' @ shown @ ''"''))))
            (withE (toStr rt key) (\<lambda>tested.
               ifThen (\<not> validKey tested)
                 (withE (toStr rt key) (\<lambda>shown.
                    addError (''Component key "'' @ shown @ ''" contains invalid characters''))))))\<close>

definition checkComponent :: "js_runtime \<Rightarrow> json \<Rightarrow> nat \<Rightarrow> json list \<Rightarrow> stmt" where
  \<open>checkComponent rt component index componentKeys =
     withE (getPropE rt component ''type'') (\<lambda>type.
       seq (ifThen (\<not> truthy type)
              (addError (''Component at index '' @ showNat index @ '' is missing a "type" property'')))
      (seq (checkKey rt (getProp component ''key'') index componentKeys)
      (seq (ifThen (\<not> truthy (getProp component ''label'') \<and> type \<noteq> Val (JStr ''button''))
              (withE (if truthy (getProp component ''key'') then toStr rt (getProp component ''key'')
                      else Inr (showNat index)) (\<lambda>shown.
                 addSuggestion (''Component "'' @ shown @ ''" is missing a "label" property''))))
      (seq (ifThen (type = Val (JStr ''select'') \<or> type = Val (JStr ''radio'')
                    \<or> type = Val (JStr ''selectboxes''))
              (ifThen (\<not> truthy (getProp component ''data'')
                       \<or> \<not> truthy (getPropV (getProp component ''data'') ''values''))
                 (withE (toStr rt (getProp component ''key'')) (\<lambda>shownKey.
                    withE (toStr rt type) (\<lambda>shownType.
                      addSuggestion (''Component "'' @ shownKey @ ''" of type "'' @ shownType
                                     @ ''" should have data.values defined''))))))
           (ifThen (truthy (getProp component ''validate'') \<and> typeofObject (getProp component ''validate''))
              (ifThen (truthy (getPropV (getProp component ''validate'') ''required'')
                       \<and> \<not> truthy (getProp component ''label''))
                 (withE (toStr rt (getProp component ''key'')) (\<lambda>shown.
                    addSuggestion (''Required component "'' @ shown @ ''" should have a label'')))))))))\<close>

text \<open>\<open>componentKeys.add(component.key)\<close> runs when the key is truthy.\<close>

definition addKey :: "jsval \<Rightarrow> json list \<Rightarrow> json list" where
  "addKey key componentKeys =
     (case key of Val v \<Rightarrow> (if truthy key then componentKeys @ [v] else componentKeys) | _ \<Rightarrow> componentKeys)"

fun componentsLoop :: "js_runtime \<Rightarrow> json list \<Rightarrow> nat \<Rightarrow> json list \<Rightarrow> stmt" where
  "componentsLoop rt [] index componentKeys = skip"
| "componentsLoop rt (component # rest) index componentKeys =
     seq (checkComponent rt component index componentKeys)
         (componentsLoop rt rest (index + 1) (addKey (getProp component ''key'') componentKeys))"

text \<open>\<open>components.some(c => c.type === 'button' && (c.action === 'submit' || !c.action))\<close>.\<close>

fun hasSubmitButton :: "js_runtime \<Rightarrow> json list \<Rightarrow> string + bool" where
  "hasSubmitButton rt [] = Inr False"
| "hasSubmitButton rt (c # cs) =
     (case getPropE rt c ''type'' of
        Inl e \<Rightarrow> Inl e
      | Inr type \<Rightarrow>
          (if type = Val (JStr ''button'')
              \<and> (getProp c ''action'' = Val (JStr ''submit'') \<or> \<not> truthy (getProp c ''action''))
           then Inr True
           else hasSubmitButton rt cs))"

definition validateFormioBody :: "js_runtime \<Rightarrow> json \<Rightarrow> stmt" where
  \<open>validateFormioBody rt form =
     withE (getPropE rt form ''components'') (\<lambda>components.
       seq (if \<not> truthy components \<or> \<not> isArray components then
              addError ''Form.io form must contain a "components" array''
            else ifThen (elements components = [])
                   (addError ''Form.io form must contain at least one component''))
      (seq (ifThen (truthy components \<and> isArray components)
              (componentsLoop rt (elements components) 0 []))
           (ifThen (truthy components \<and> isArray components)
              (withE (hasSubmitButton rt (elements components)) (\<lambda>found.
                 ifThen (\<not> found) (addSuggestion ''Form does not contain a submit button''))))))\<close>

definition validateFormioForm :: "js_runtime \<Rightarrow> string \<Rightarrow> ValidationResult" where
  "validateFormioForm rt code =
     (case jsonParse rt code of
        Inl message \<Rightarrow> invalidJson message ([], [])
      | Inr form \<Rightarrow> finish (validateFormioBody rt form ([], [])))"

subsection \<open>Dispatch on the output type\<close>

definition validateOutput :: "js_runtime \<Rightarrow> string \<Rightarrow> string \<Rightarrow> ValidationResult" where
  "validateOutput rt code outputType =
     (if outputType = ''sql'' then validateSQL code
      else if outputType = ''n8n'' then validateN8nWorkflow rt code
      else if outputType = ''formio'' then validateFormioForm rt code
      else \<lparr>isValid = False, errors = [''Unknown output type: '' @ outputType], suggestions = []\<rparr>)"

subsection \<open>Predicates on the result\<close>

text \<open>A suggestion of the form \<open>Node "..." appears to be isolated (no connections)\<close>.\<close>

definition isIsolatedSuggestion :: "string \<Rightarrow> bool" where
  \<open>isIsolatedSuggestion s =
     (let opening = ''Node "''; closing = ''" appears to be isolated (no connections)'' in
      length opening + length closing \<le> length s
      \<and> take (length opening) s = opening
      \<and> drop (length s - length closing) s = closing)\<close>

definition isolatedMessage :: "string \<Rightarrow> string" where
  \<open>isolatedMessage shown = ''Node "'' @ shown @ ''" appears to be isolated (no connections)''\<close>

text \<open>
  What it means for a name to appear in \<open>connections\<close>, written from the shape of the
  document and not from the validator: the name appears as a source when it is a key of
  \<open>connections\<close>; it appears as a target when some key of \<open>connections\<close> holds a value, one
  of whose property values is an array that contains an array that contains a truthy
  entry whose property \<open>node\<close> is that name. Names are compared as primitive values.
\<close>

definition appearsAsSource :: "json \<Rightarrow> json \<Rightarrow> bool" where
  "appearsAsSource c name = (\<exists>k\<in>set (ownKeys c). name = JStr k)"

definition namesTarget :: "json \<Rightarrow> json \<Rightarrow> bool" where
  "namesTarget entry name =
     (truthy (Val entry) \<and> getProp entry ''node'' = Val name \<and> truthy (Val name))"

definition appearsAsTarget :: "json \<Rightarrow> json \<Rightarrow> bool" where
  "appearsAsTarget c name =
     (\<exists>k\<in>set (ownKeys c). \<exists>outputs\<in>set (case getProp c k of Val v \<Rightarrow> [v] | _ \<Rightarrow> []).
        \<exists>links\<in>set (ownValues outputs). \<exists>link\<in>set (elements (Val links)).
          \<exists>entry\<in>set (elements (Val link)). namesTarget entry name)"

fun appearsInConnections :: "jsval \<Rightarrow> jsval \<Rightarrow> bool" where
  "appearsInConnections (Val c) (Val name) =
     (isPrimitive name \<and> (appearsAsSource c name \<or> appearsAsTarget c name))"
| "appearsInConnections connections name = False"

text \<open>
  A statement that keeps a property \<open>Q\<close> of all suggestions: when every suggestion pushed
  so far has it, so has every suggestion pushed afterwards.
\<close>

definition keepsSuggestions :: "(string \<Rightarrow> bool) \<Rightarrow> stmt \<Rightarrow> bool" where
  "keepsSuggestions Q f = (\<forall>st. list_all Q (snd st) \<longrightarrow> list_all Q (snd (snd (f st))))"

text \<open>
  An isolated-node suggestion is justified when the workflow has more than one node and
  the suggestion shows the name of one of its nodes that does not appear in
  \<open>connections\<close>.
\<close>

definition justified :: "js_runtime \<Rightarrow> jsval \<Rightarrow> jsval \<Rightarrow> string \<Rightarrow> bool" where
  "justified rt nodes connections s =
     (isIsolatedSuggestion s \<longrightarrow>
        (\<exists>ns. nodes = Val (JArr ns) \<and> 1 < length ns
           \<and> (\<exists>x\<in>set ns. \<not> appearsInConnections connections (getProp x ''name'')
                 \<and> (\<exists>shown. toStr rt (getProp x ''name'') = Inr shown \<and> s = isolatedMessage shown))))"

section \<open>Generation service: ambiguity pre-check\<close>

record AmbiguityResult =
  isAmbiguous :: bool
  clarificationPrompt :: jsval

definition vaguePronouns :: "string list" where
  "vaguePronouns = [''it'', ''that'', ''this'', ''those'', ''these'']"

definition actionWords :: "string list" where
  "actionWords = [''get'', ''find'', ''list'', ''show'', ''display'', ''create'', ''generate'', ''fetch'',
     ''retrieve'', ''select'', ''query'', ''search'', ''filter'', ''calculate'', ''count'', ''sum'', ''average'']"

text \<open>\<open>/\?{2,}/.test(s)\<close>.\<close>

fun hasDoubleQuestion :: "string \<Rightarrow> bool" where
  "hasDoubleQuestion (c # d # cs) = ((c = CHR ''?'' \<and> d = CHR ''?'') \<or> hasDoubleQuestion (d # cs))"
| "hasDoubleQuestion cs = False"

definition hasActionWord :: "string \<Rightarrow> bool" where
  "hasActionWord request = testKeyword actionWords request"

definition hasReasonableLength :: "string \<Rightarrow> bool" where
  "hasReasonableLength request = (length (trim request) \<ge> 20)"

definition checkAmbiguityHeuristics :: "string \<Rightarrow> AmbiguityResult" where
  "checkAmbiguityHeuristics request =
     (if length (trim request) < 10 then
        \<lparr>isAmbiguous = True,
         clarificationPrompt = Val (JStr ''Your request is too short. Could you please provide more specific details about what you want to generate?'')\<rparr>
      else if keywordPrefix vaguePronouns (trim request) then
        \<lparr>isAmbiguous = True,
         clarificationPrompt = Val (JStr ''Your request starts with a vague pronoun. Could you please specify what you are referring to?'')\<rparr>
      else if hasDoubleQuestion request then
        \<lparr>isAmbiguous = True,
         clarificationPrompt = Val (JStr ''Your request seems uncertain. Could you please clarify exactly what you need?'')\<rparr>
      else if \<not> hasActionWord request \<or> \<not> hasReasonableLength request then
        \<lparr>isAmbiguous = True,
         clarificationPrompt = Val (JStr ''Could you please provide more specific details about what you want to generate? Include what data you need and any specific conditions.'')\<rparr>
      else \<lparr>isAmbiguous = False, clarificationPrompt = Undefined\<rparr>)"

definition ambiguitySystemPrompt :: string where
  \<open>ambiguitySystemPrompt = ''You are an expert at analyzing user requests for code generation. Your task is to determine if a request is ambiguous or lacks sufficient detail to generate accurate code.\<newline>\<newline>A request is ambiguous if:\<newline>- It lacks specific details about what needs to be generated\<newline>- It references undefined entities or concepts\<newline>- It has conflicting requirements\<newline>- It's too vague to understand the user's intent\<newline>- It requires information that wasn't provided\<newline>\<newline>Respond with a JSON object in this format:\<newline>{\<newline>  "isAmbiguous": true/false,\<newline>  "clarificationPrompt": "A specific question to ask the user (only if ambiguous)"\<newline>}''\<close>

definition ambiguityUserPrompt :: "string \<Rightarrow> string" where
  \<open>ambiguityUserPrompt request = ''Analyze this code generation request and determine if it's ambiguous:\<newline>\<newline>"'' @ request @ ''"\<newline>\<newline>Is this request clear enough to generate code, or does it need clarification?''\<close>

text \<open>
  \<open>content.match(/\{[\s\S]*\}/)\<close>: the text from the first opening brace to the last
  closing brace, when a closing brace follows the first opening one.
\<close>

definition matchBraces :: "string \<Rightarrow> string option" where
  "matchBraces s =
     (let fromOpen = dropWhile (\<lambda>c. c \<noteq> CHR ''{'') s;
          toClose = rev (dropWhile (\<lambda>c. c \<noteq> CHR ''}'') (rev fromOpen))
      in if toClose = [] then None else Some toClose)"

text \<open>
  The completion service seen from the generation service: for the prompts and the
  temperature of a call, what each request of that call does. A call of
  \<open>llmClient.generateCompletion\<close> is \<open>generateCompletion\<close> on that behaviour.
\<close>

type_synonym remote = "string \<Rightarrow> string \<Rightarrow> rat \<Rightarrow> nat \<Rightarrow> api_error + raw_response"

text \<open>The calls that the generation service makes to its collaborators, in order.\<close>

datatype call =
    RetrieveContext string string nat
  | BuildContextString
  | BuildPrompts string
  | GenerateCompletion string string rat
  | ValidateOutput string string

definition checkAmbiguityWithLLM :: "js_runtime \<Rightarrow> remote \<Rightarrow> string \<Rightarrow> string + AmbiguityResult" where
  "checkAmbiguityWithLLM rt llm request =
     (case outcome (generateCompletion (llm ambiguitySystemPrompt (ambiguityUserPrompt request) (3 / 10))) of
        Inl error \<Rightarrow> Inl error
      | Inr response \<Rightarrow>
          (case matchBraces (content response) of
             None \<Rightarrow> Inr \<lparr>isAmbiguous = False, clarificationPrompt = Undefined\<rparr>
           | Some jsonMatch \<Rightarrow>
               (case jsonParse rt jsonMatch of
                  Inl error \<Rightarrow> Inl error
                | Inr result \<Rightarrow>
                    (case getPropE rt result ''isAmbiguous'' of
                       Inl error \<Rightarrow> Inl error
                     | Inr flag \<Rightarrow>
                         Inr \<lparr>isAmbiguous = (flag = Val (JBool True)),
                              clarificationPrompt =
                                (if truthy flag then getProp result ''clarificationPrompt''
                                 else Undefined)\<rparr>))))"

text \<open>
  \<open>detectAmbiguity\<close> returns its result together with the calls it made to the completion
  client.
\<close>

definition detectAmbiguity :: "js_runtime \<Rightarrow> remote \<Rightarrow> string \<Rightarrow> AmbiguityResult \<times> call list" where
  "detectAmbiguity rt llm request =
     (let heuristicResult = checkAmbiguityHeuristics request in
      if isAmbiguous heuristicResult then (heuristicResult, [])
      else
        (case checkAmbiguityWithLLM rt llm request of
           Inr llmResult \<Rightarrow>
             (llmResult, [GenerateCompletion ambiguitySystemPrompt (ambiguityUserPrompt request) (3 / 10)])
         | Inl error \<Rightarrow>
             (\<lparr>isAmbiguous = False, clarificationPrompt = Undefined\<rparr>,
              [GenerateCompletion ambiguitySystemPrompt (ambiguityUserPrompt request) (3 / 10)])))"

section \<open>Generation service: generateCode\<close>

record GenerationRequest =
  request :: string
  outputType :: string
  versionId :: string
  userId :: string

record GenerationMetadata =
  metaTokensUsed :: nat
  processingTime :: int
  contextFiles :: "string list"
  metaModel :: string

record GenerationResult =
  generatedCode :: string
  metadata :: GenerationMetadata
  validation :: ValidationResult

text \<open>
  Everything outside the generation service that one call of \<open>generateCode\<close> depends on:
  the host built-ins, the retrieval services, the completion service, and the two
  readings of the clock (\<open>Date.now()\<close> at entry and after validation).
\<close>

record Environment =
  runtime :: js_runtime
  services :: Services
  llmService :: remote
  startTime :: int
  endTime :: int

text \<open>\<open>[...new Set(xs)]\<close>: the distinct elements in the order of their first occurrence.\<close>

fun distinctInOrder :: "string list \<Rightarrow> string list" where
  "distinctInOrder [] = []"
| "distinctInOrder (x # xs) = x # distinctInOrder (filter (\<lambda>y. y \<noteq> x) xs)"

definition noContextMessage :: string where
  "noContextMessage = ''No context found for the specified version. Please ensure DDL files and documentation are uploaded.''"

text \<open>
  \<open>generateCode\<close> returns the result or the message of the error it throws (the \<open>catch\<close>
  block rethrows what it caught), together with the calls it made to its collaborators.
  Writing to the console is left out.
\<close>

definition generateCode :: "Environment \<Rightarrow> GenerationRequest \<Rightarrow> (string + GenerationResult) \<times> call list" where
  "generateCode env generationRequest =
     (let retrieval = [RetrieveContext (request generationRequest) (versionId generationRequest) 5] in
      case retrieveContext (services env) (request generationRequest) (versionId generationRequest) 5 of
        Inl e \<Rightarrow> (Inl e, retrieval)
      | Inr contextChunks \<Rightarrow>
          if length contextChunks = 0 then (Inl noContextMessage, retrieval)
          else
            (let contextString = buildContextString contextChunks;
                 files = distinctInOrder (map source contextChunks);
                 prompting = retrieval @ [BuildContextString, BuildPrompts (outputType generationRequest)]
             in case buildPrompts (outputType generationRequest) contextString (request generationRequest) of
                  Inl e \<Rightarrow> (Inl e, prompting)
                | Inr (systemPromptText, userPromptText) \<Rightarrow>
                    (let completing = prompting @ [GenerateCompletion systemPromptText userPromptText (7 / 10)] in
                     case outcome (generateCompletion (llmService env systemPromptText userPromptText (7 / 10))) of
                       Inl e \<Rightarrow> (Inl e, completing)
                     | Inr llmResponse \<Rightarrow>
                         (let checked = validateOutput (runtime env) (content llmResponse)
                                          (outputType generationRequest)
                          in (Inr \<lparr>generatedCode = content llmResponse,
                                   metadata = \<lparr>metaTokensUsed = tokensUsed llmResponse,
                                               processingTime = endTime env - startTime env,
                                               contextFiles = files,
                                               metaModel = model llmResponse\<rparr>,
                                   validation = checked\<rparr>,
                              completing @ [ValidateOutput (content llmResponse) (outputType generationRequest)])))))"

text \<open>
  An environment for the worked examples: the index holds one chunk of a DDL file for
  every version, and the model answers every request with the same text.
\<close>

definition exampleServices :: Services where
  "exampleServices =
     \<lparr>embed = (\<lambda>text. Inr [1 / 2, 1 / 4]),
      search = (\<lambda>v versionId topK.
        Inr [\<lparr>score = 9 / 10, payloadContent = ''CREATE TABLE orders (id INT, customer_id INT, total INT);'',
              payloadVersionId = versionId, payloadFileId = ''f1'', payloadFilename = ''orders.sql''\<rparr>])\<rparr>"

definition exampleEnvironment :: "string \<Rightarrow> Environment" where
  "exampleEnvironment answer =
     \<lparr>runtime = exampleRuntime,
      services = exampleServices,
      llmService = (\<lambda>sys usr temperature attempt.
        Inr \<lparr>raw_content = Some answer, raw_total_tokens = Some 42, raw_model = ''gpt-4-turbo-preview''\<rparr>),
      startTime = 1000,
      endTime = 1850\<rparr>"

definition emptyIndexEnvironment :: Environment where
  "emptyIndexEnvironment =
     (exampleEnvironment ''SELECT 1'')\<lparr>services := \<lparr>embed = (\<lambda>text. Inr [1 / 2, 1 / 4]),
                                                     search = (\<lambda>v versionId topK. Inr [])\<rparr>\<rparr>"

definition exampleRequest :: GenerationRequest where
  "exampleRequest = \<lparr>request = ''get all orders'', outputType = ''sql'', versionId = ''V'', userId = ''u1''\<rparr>"

section \<open>Properties of the completion client\<close>

lemma showNat_4: "showNat 4 = ''4''"
  by (simp add: showNat.simps digitChar_def)

lemma backoff_default: "calculateBackoffDelay retryConfig n = min (1000 * 2 ^ n) 10000"
  by (simp add: calculateBackoffDelay_def retryConfig_def)

lemma backoff_mono: "calculateBackoffDelay retryConfig n \<le> calculateBackoffDelay retryConfig (Suc n)"
  by (simp add: backoff_default)

lemma retryLoop_fail_step:
  assumes "attempt < maxRetries cfg" "api attempt = Inl e" "isRetryableError e"
  shows "retryLoop cfg api attempt le slept =
           retryLoop cfg api (Suc attempt) (Some e) (slept @ [calculateBackoffDelay cfg attempt])"
  using assms by (subst retryLoop.simps) simp

lemma retryLoop_stop:
  assumes "attempt \<le> maxRetries cfg" "api attempt = Inl e"
    "attempt = maxRetries cfg \<or> \<not> isRetryableError e"
  shows "retryLoop cfg api attempt le slept =
           \<lparr>outcome = Inl (allRetriesFailed cfg (Some e)), calls = attempt + 1, sleeps = slept\<rparr>"
  using assms by (subst retryLoop.simps) auto

lemma retryLoop_answer:
  assumes "attempt \<le> maxRetries cfg" "api attempt = Inr r"
  shows "retryLoop cfg api attempt le slept =
           \<lparr>outcome = Inr (toLLMResponse r), calls = attempt + 1, sleeps = slept\<rparr>"
  using assms by (subst retryLoop.simps) simp

lemma retryable_http: "isRetryableError (httpError s m) \<longleftrightarrow> s = 429 \<or> s \<ge> 500"
  by (auto simp: isRetryableError_def httpError_def)

lemma httpError_message: "lastErrorMessage (Some (httpError s m)) = (if m = [] then ''Unknown error'' else m)"
  by (simp add: lastErrorMessage_def httpError_def)

lemma abortError_not_retryable: "\<not> isRetryableError abortError"
  by (simp add: isRetryableError_def abortError_def)

lemma all_attempts_retryable:
  assumes "\<forall>k\<le>3. \<exists>e. api k = Inl e \<and> isRetryableError e" and "api 3 = Inl e3"
  shows "generateCompletion api =
           \<lparr>outcome = Inl (''LLM request failed after 4 attempts: '' @ lastErrorMessage (Some e3)),
            calls = 4, sleeps = [1000, 2000, 4000]\<rparr>"
proof -
  obtain e0 where e0: "api 0 = Inl e0" "isRetryableError e0"
    using assms(1) [rule_format, of 0] by auto
  obtain e1 where e1: "api (Suc 0) = Inl e1" "isRetryableError e1"
    using assms(1) [rule_format, of "Suc 0"] by auto
  obtain e2 where e2: "api (Suc (Suc 0)) = Inl e2" "isRetryableError e2"
    using assms(1) [rule_format, of "Suc (Suc 0)"] by auto
  have m: "maxRetries retryConfig = 3" by (simp add: retryConfig_def)
  have "generateCompletion api = retryLoop retryConfig api 0 None []"
    by (simp add: generateCompletion_def)
  also have "\<dots> = retryLoop retryConfig api (Suc 0) (Some e0) [1000]"
    using retryLoop_fail_step [of 0 retryConfig api e0 None "[]"] e0 m
    by (simp add: backoff_default)
  also have "\<dots> = retryLoop retryConfig api (Suc (Suc 0)) (Some e1) [1000, 2000]"
    using retryLoop_fail_step [of "Suc 0" retryConfig api e1 "Some e0" "[1000]"] e1 m
    by (simp add: backoff_default)
  also have "\<dots> = retryLoop retryConfig api (Suc (Suc (Suc 0))) (Some e2) [1000, 2000, 4000]"
    using retryLoop_fail_step [of "Suc (Suc 0)" retryConfig api e2 "Some e1" "[1000, 2000]"] e2 m
    by (simp add: backoff_default)
  also have "\<dots> = \<lparr>outcome = Inl (allRetriesFailed retryConfig (Some e3)),
                      calls = 4, sleeps = [1000, 2000, 4000]\<rparr>"
    using retryLoop_stop [of "Suc (Suc (Suc 0))" retryConfig api e3 "Some e2" "[1000, 2000, 4000]"]
      assms(2) m by (simp add: numeral_3_eq_3)
  finally show ?thesis
    by (simp add: allRetriesFailed_def m showNat_4)
qed

lemma first_attempt_not_retryable:
  assumes "api 0 = Inl e" "\<not> isRetryableError e"
  shows "generateCompletion api =
           \<lparr>outcome = Inl (''LLM request failed after 4 attempts: '' @ lastErrorMessage (Some e)),
            calls = 1, sleeps = []\<rparr>"
  using retryLoop_stop [of 0 retryConfig api e None "[]"] assms
  by (simp add: generateCompletion_def allRetriesFailed_def retryConfig_def showNat_4)

text \<open>
  C3. A request aborted by the 30 second timer throws an error named \<open>AbortError\<close>, which
  has no status and no \<open>ECONNRESET\<close>/\<open>ETIMEDOUT\<close> code. \<open>isRetryableError\<close> rejects it, so
  the client gives up after that single attempt, without sleeping, although three retries
  remain; a 429 answer at the same place is retried three times.
\<close>

theorem abort_timeout_is_not_retried:
  "\<not> isRetryableError abortError
   \<and> generateCompletion (\<lambda>attempt. Inl abortError) =
       \<lparr>outcome = Inl ''LLM request failed after 4 attempts: This operation was aborted'',
        calls = 1, sleeps = []\<rparr>
   \<and> isRetryableError (httpError 429 ''Too Many Requests'')
   \<and> generateCompletion (\<lambda>attempt. Inl (httpError 429 ''Too Many Requests'')) =
       \<lparr>outcome = Inl ''LLM request failed after 4 attempts: Too Many Requests'',
        calls = 4, sleeps = [1000, 2000, 4000]\<rparr>"
proof -
  have a: "generateCompletion (\<lambda>attempt. Inl abortError) =
       \<lparr>outcome = Inl ''LLM request failed after 4 attempts: This operation was aborted'',
        calls = 1, sleeps = []\<rparr>"
    using first_attempt_not_retryable [of "\<lambda>attempt. Inl abortError" abortError]
      abortError_not_retryable
    by (simp add: lastErrorMessage_def abortError_def)
  have b: "generateCompletion (\<lambda>attempt. Inl (httpError 429 ''Too Many Requests'')) =
       \<lparr>outcome = Inl ''LLM request failed after 4 attempts: Too Many Requests'',
        calls = 4, sleeps = [1000, 2000, 4000]\<rparr>"
    using all_attempts_retryable [of "\<lambda>attempt. Inl (httpError 429 ''Too Many Requests'')"
        "httpError 429 ''Too Many Requests''"]
    by (simp add: retryable_http httpError_message)
  show ?thesis
    using a b abortError_not_retryable by (simp add: retryable_http)
qed

text \<open>
  C4. The delay before the retry that follows attempt \<open>n\<close> is \<open>min (1000 * 2^n) 10000\<close>
  milliseconds; it never decreases with \<open>n\<close> and never exceeds 10000. When each of the four
  attempts throws a retryable error the client sends exactly four requests, sleeping
  1000, 2000 and 4000 ms between them, and throws an error whose message ends with the
  message of the last failure. When the first attempt throws a non-retryable error it
  sends exactly one request.
\<close>

theorem backoff_delays_and_attempt_counts:
  "calculateBackoffDelay retryConfig n = min (1000 * 2 ^ n) 10000
   \<and> (m \<le> n \<longrightarrow> calculateBackoffDelay retryConfig m \<le> calculateBackoffDelay retryConfig n)
   \<and> calculateBackoffDelay retryConfig n \<le> 10000
   \<and> ((\<forall>k\<le>3. \<exists>e. api k = Inl e \<and> isRetryableError e) \<and> api 3 = Inl e3 \<longrightarrow>
        calls (generateCompletion api) = 4
        \<and> sleeps (generateCompletion api) = [1000, 2000, 4000]
        \<and> outcome (generateCompletion api) =
            Inl (''LLM request failed after 4 attempts: '' @ lastErrorMessage (Some e3)))
   \<and> (api' 0 = Inl e' \<and> \<not> isRetryableError e' \<longrightarrow>
        calls (generateCompletion api') = 1
        \<and> sleeps (generateCompletion api') = []
        \<and> outcome (generateCompletion api') =
            Inl (''LLM request failed after 4 attempts: '' @ lastErrorMessage (Some e')))"
proof -
  have mono: "m \<le> n \<Longrightarrow> calculateBackoffDelay retryConfig m \<le> calculateBackoffDelay retryConfig n"
  proof -
    assume "m \<le> n"
    then have "(2::nat) ^ m \<le> 2 ^ n" by (simp add: power_increasing)
    then show ?thesis by (simp add: backoff_default min_le_iff_disj)
  qed
  show ?thesis
    using mono all_attempts_retryable [of api e3] first_attempt_not_retryable [of api' e']
    by (simp add: backoff_default)
qed

theorem backoff_delays_and_attempt_counts_witness:
  "calculateBackoffDelay retryConfig 2 = 4000
   \<and> calculateBackoffDelay retryConfig 2 \<le> calculateBackoffDelay retryConfig 7
   \<and> calculateBackoffDelay retryConfig 7 = 10000
   \<and> isRetryableError (httpError 503 ''Service Unavailable'')
   \<and> calls (generateCompletion (\<lambda>k. Inl (httpError 503 ''Service Unavailable''))) = 4
   \<and> outcome (generateCompletion (\<lambda>k. Inl (httpError 503 ''Service Unavailable''))) =
        Inl ''LLM request failed after 4 attempts: Service Unavailable''
   \<and> \<not> isRetryableError (httpError 400 ''Bad Request'')
   \<and> calls (generateCompletion (\<lambda>k. Inl (httpError 400 ''Bad Request''))) = 1"
  using backoff_delays_and_attempt_counts [of 2 2 "\<lambda>k. Inl (httpError 503 ''Service Unavailable'')"
      "httpError 503 ''Service Unavailable''" "\<lambda>k. Inl (httpError 400 ''Bad Request'')"
      "httpError 400 ''Bad Request''"]
    backoff_delays_and_attempt_counts [of 7 2 "\<lambda>k. Inl (httpError 503 ''Service Unavailable'')"
      "httpError 503 ''Service Unavailable''" "\<lambda>k. Inl (httpError 400 ''Bad Request'')"
      "httpError 400 ''Bad Request''"]
  by (simp add: retryable_http httpError_message)

section \<open>Properties of the chunker\<close>

lemma lastIndexUpTo_append:
  "lastIndexUpTo ch (xs @ ys) i limit best =
     lastIndexUpTo ch ys (i + int (length xs)) limit (lastIndexUpTo ch xs i limit best)"
proof (induction xs arbitrary: i best)
  case Nil
  then show ?case by simp
next
  case (Cons x xs)
  show ?case
  proof (cases "i > limit")
    case True
    then show ?thesis by (cases ys) auto
  next
    case False
    then show ?thesis using Cons.IH [of "i + 1"] by (simp add: algebra_simps)
  qed
qed

lemma lastIndexUpTo_replicate_other:
  "c \<noteq> ch \<Longrightarrow> lastIndexUpTo ch (replicate n c) i limit best = best"
  by (induction n arbitrary: i) auto

lemma isPrefixOf_take: "isPrefixOf p s \<longleftrightarrow> take (length p) s = p"
  by (induction p s rule: isPrefixOf.induct) auto

lemma indexOf_prefix: "s \<noteq> [] \<Longrightarrow> take (length p) s = p \<Longrightarrow> indexOf s p = 0"
  by (cases s) (simp_all add: indexOf_def isPrefixOf_take del: isPrefixOf.simps)

lemma trim_id:
  assumes "s \<noteq> []" "\<not> isWhitespace (hd s)" "\<not> isWhitespace (last s)"
  shows "trim s = s"
proof -
  have keep_front: "dropWhile isWhitespace s = s"
    using assms by (simp add: dropWhile_eq_self_iff)
  have keep_back: "dropWhile isWhitespace (rev s) = rev s"
    using assms by (simp add: dropWhile_eq_self_iff hd_rev)
  show ?thesis by (simp add: trim_def keep_front keep_back)
qed

lemma trim_Cons_ws: "isWhitespace c \<Longrightarrow> trim (c # s) = trim s"
  by (simp add: trim_def)

lemma collapseFrom_replicate:
  "\<not> isWhitespace c \<Longrightarrow>
   collapseFrom b (replicate n c @ r) = replicate n c @ collapseFrom (if n = 0 then b else False) r"
  by (induction n arbitrary: b) auto

lemma ws_simps:
  "isWhitespace (CHR '' '')" "\<not> isWhitespace (CHR ''a'')" "\<not> isWhitespace (CHR ''x'')"
  "\<not> isWhitespace (CHR ''.'')"
  by (simp_all add: isWhitespace_def)

lemma chunkLoop_exit: "int (length t) \<le> s \<Longrightarrow> chunkLoop t s cs = Some cs"
  by (subst chunkLoop.simps) simp

lemma chunkLoop_step:
  "s < int (length t) \<Longrightarrow> chunkLoop t s cs = chunkLoop t (fst (chunkStep t s cs)) (snd (chunkStep t s cs))"
  by (subst chunkLoop.simps) (simp add: case_prod_beta)

subsection \<open>Texts without separators, and short texts\<close>

lemma lastIndexUpTo_absent: "ch \<notin> set s \<Longrightarrow> lastIndexUpTo ch s i limit best = best"
  by (induction s arbitrary: i) auto

lemma lastIndexOf_absent: "ch \<notin> set s \<Longrightarrow> lastIndexOf s ch position = -1"
  by (simp add: lastIndexOf_def lastIndexUpTo_absent)

lemma trim_no_whitespace: "\<forall>c\<in>set s. \<not> isWhitespace c \<Longrightarrow> trim s = s"
proof -
  assume a: "\<forall>c\<in>set s. \<not> isWhitespace c"
  have "dropWhile isWhitespace s = s"
    using a by (cases s) auto
  moreover have "dropWhile isWhitespace (rev s) = rev s"
    using a by (cases "rev s") (auto simp: dropWhile_eq_self_iff dest: arg_cong [where f = set])
  ultimately show ?thesis by (simp add: trim_def)
qed

lemma collapseFrom_no_whitespace: "\<forall>c\<in>set s. \<not> isWhitespace c \<Longrightarrow> collapseFrom b s = s"
  by (induction s arbitrary: b) auto

lemma indexOfFrom_upper:
  "k \<le> length s \<Longrightarrow> isPrefixOf p (drop k s) \<Longrightarrow> indexOfFrom p s i \<le> i + int k"
proof (induction s arbitrary: i k)
  case Nil
  then show ?case by (cases p) auto
next
  case (Cons c cs)
  show ?case
  proof (cases k)
    case 0
    with Cons.prems show ?thesis by simp
  next
    case (Suc j)
    with Cons.prems have "indexOfFrom p cs (i + 1) \<le> i + 1 + int j"
      by (intro Cons.IH) simp_all
    with Suc show ?thesis by simp
  qed
qed


lemma plainText_absent:
  assumes "plainText t"
  shows "CHR ''.'' \<notin> set t" "CHR ''!'' \<notin> set t" "CHR ''?'' \<notin> set t" "CHR '' '' \<notin> set t"
    "\<forall>c\<in>set t. \<not> isWhitespace c"
  using assms by (auto simp: plainText_def list_all_iff isWhitespace_def)

lemma chunkEnd_plain: "plainText t \<Longrightarrow> 0 \<le> s \<Longrightarrow> chunkEnd t s = s + 1000"
  by (simp add: chunkEnd_def chunkSize_def Let_def lastIndexOf_absent plainText_absent)

lemma chunkStep_plain:
  assumes "plainText t" "0 \<le> s" "s < int (length t)"
  shows "chunkStep t s cs = (s + 800, cs @ [substring t s (s + 1000)])"
proof -
  let ?chunk = "substring t s (s + 1000)"
  have sub: "?chunk = take (nat (min (s + 1000) (int (length t)) - s)) (drop (nat s) t)"
    using assms(2,3) by (simp add: substring_def Let_def min_def max_def)
  have nonempty: "?chunk \<noteq> []"
    using assms(2,3) unfolding sub by (auto simp: min_def)
  have "set ?chunk \<subseteq> set t"
    unfolding sub by (meson set_take_subset set_drop_subset subset_trans)
  then have tr: "trim ?chunk = ?chunk"
    using plainText_absent(5) [OF assms(1)] by (intro trim_no_whitespace) auto
  have "isPrefixOf ?chunk (drop (nat s) t)"
    unfolding sub isPrefixOf_take by (simp add: min_def)
  then have "indexOfFrom ?chunk t 0 \<le> 0 + int (nat s)"
    using assms(2,3) by (intro indexOfFrom_upper) simp_all
  then have idx: "indexOf t ?chunk \<le> s"
    using assms(2) by (simp add: indexOf_def)
  show ?thesis
    using idx nonempty
    by (simp add: chunkStep_def chunkEnd_plain [OF assms(1,2)] tr chunkOverlap_def Let_def)
qed

lemma chunkLoop_plain_returns:
  assumes "plainText t"
  shows "0 \<le> s \<Longrightarrow> \<exists>r. chunkLoop t s cs = Some r"
proof (induction "nat (int (length t) - s)" arbitrary: s cs rule: less_induct)
  case less
  show ?case
  proof (cases "s < int (length t)")
    case False
    then show ?thesis by (subst chunkLoop.simps) simp
  next
    case True
    have "\<exists>r. chunkLoop t (s + 800) (cs @ [substring t s (s + 1000)]) = Some r"
      using less.prems True by (intro less.hyps) auto
    then show ?thesis
      using True by (subst chunkLoop.simps) (simp add: chunkStep_plain [OF assms less.prems True])
  qed
qed

lemma chunkText_plain_returns: "plainText t \<Longrightarrow> \<exists>r. chunkText t = Some r"
proof -
  assume p: "plainText t"
  have "trim (collapseWhitespace t) = t"
    using plainText_absent(5) [OF p]
    by (simp add: collapseWhitespace_def collapseFrom_no_whitespace trim_no_whitespace)
  then show ?thesis
    using chunkLoop_plain_returns [OF p, of 0 "[]"] by (simp add: chunkText_def)
qed

lemma chunkText_single_chunk:
  "int (length (trim (collapseWhitespace t))) \<le> chunkSize \<Longrightarrow>
   chunkText t = Some [trim (collapseWhitespace t)]"
  by (simp add: chunkText_def)

subsection \<open>The document on which the loop stalls\<close>

lemma length_stallingText: "length stallingText = 1400"
  by (simp add: stallingText_def)

lemma normalize_stallingText: "trim (collapseWhitespace stallingText) = stallingText"
proof -
  have "collapseWhitespace stallingText = stallingText"
    using collapseFrom_replicate [of "CHR ''x''" True 1000 "[]"]
    by (simp add: collapseWhitespace_def stallingText_def collapseFrom_replicate ws_simps)
  moreover have "trim stallingText = stallingText"
    by (rule trim_id) (simp_all add: stallingText_def ws_simps hd_append)
  ultimately show ?thesis by simp
qed

lemma chunkEnd_stalling_0: "chunkEnd stallingText 0 = 399"
  by (simp add: chunkEnd_def stallingText_def chunkSize_def lastIndexOf_def lastIndexUpTo_append
      lastIndexUpTo_replicate_other Let_def)

lemma chunkEnd_stalling_199: "chunkEnd stallingText 199 = 399"
  by (simp add: chunkEnd_def stallingText_def chunkSize_def lastIndexOf_def lastIndexUpTo_append
      lastIndexUpTo_replicate_other Let_def)

lemma chunkStep_stalling_0:
  "chunkStep stallingText 0 [] =
     (199, [replicate 199 (CHR ''a'') @ CHR '' '' # replicate 199 (CHR ''a'')])"
proof -
  have s: "substring stallingText 0 399 = replicate 199 (CHR ''a'') @ CHR '' '' # replicate 199 (CHR ''a'')"
    by (simp add: substring_def stallingText_def)
  have t: "trim (substring stallingText 0 399) =
             replicate 199 (CHR ''a'') @ CHR '' '' # replicate 199 (CHR ''a'')"
    unfolding s by (rule trim_id) (simp_all add: ws_simps hd_append)
  have "indexOf stallingText (replicate 199 (CHR ''a'') @ CHR '' '' # replicate 199 (CHR ''a'')) = 0"
    by (rule indexOf_prefix) (simp_all add: stallingText_def)
  then show ?thesis
    by (simp add: chunkStep_def chunkEnd_stalling_0 t chunkOverlap_def Let_def)
qed

lemma chunkStep_stalling_199:
  "chunkStep stallingText 199 cs = (199, cs @ [replicate 199 (CHR ''a'')])"
proof -
  have "substring stallingText 199 399 = CHR '' '' # replicate 199 (CHR ''a'')"
    by (simp add: substring_def stallingText_def)
  then have t: "trim (substring stallingText 199 399) = replicate 199 (CHR ''a'')"
    by (simp add: trim_Cons_ws ws_simps trim_id)
  have "indexOf stallingText (replicate 199 (CHR ''a'')) = 0"
    by (rule indexOf_prefix) (simp_all add: stallingText_def)
  then show ?thesis
    by (simp add: chunkStep_def chunkEnd_stalling_199 t chunkOverlap_def Let_def)
qed

lemma chunkLoop_stalling_defined:
  "chunkLoop t s cs = Some y \<Longrightarrow> \<not> (t = stallingText \<and> s = 199)"
proof (rule chunkLoop.raw_induct [where P = "\<lambda>t s cs y. \<not> (t = stallingText \<and> s = 199)"
      and normalizedText = t and startIndex = s and chunks = cs and y = y])
  fix f t s cs y
  assume IH: "\<And>t s cs y. f t s cs = Some y \<Longrightarrow> \<not> (t = stallingText \<and> s = 199)"
    and body: "(if s < int (length t) then
        (case chunkStep t s cs of (startIndex', chunks') \<Rightarrow> f t startIndex' chunks')
      else Some cs) = Some y"
  show "\<not> (t = stallingText \<and> s = 199)"
  proof
    assume a: "t = stallingText \<and> s = 199"
    with body have "f stallingText 199 (cs @ [replicate 199 (CHR ''a'')]) = Some y"
      by (simp add: chunkStep_stalling_199 length_stallingText)
    from IH [OF this] show False by simp
  qed
next
  assume "chunkLoop t s cs = Some y"
  then show "chunkLoop t s cs = Some y" .
qed

lemma chunkLoop_stalling: "chunkLoop stallingText 199 cs = None"
  using chunkLoop_stalling_defined [of stallingText 199 cs]
  by (cases "chunkLoop stallingText 199 cs") auto

text \<open>
  C2. The loop of \<open>chunkText\<close> does not advance on every input. On \<open>stallingText\<close> the first
  iteration cuts at the second space and moves the start index to 199. The second
  iteration cuts the window \<open>[199, 399)\<close>, whose trimmed content, the 199-letter word, also
  occurs at index 0; the progress guard compares the new start index \<open>399 - 200 = 199\<close> with
  that first occurrence, finds \<open>199 > 0\<close> and keeps 199. Every later iteration repeats the
  second one, pushing the same chunk again: \<open>chunkText\<close> never returns. (On a text
  without any white space or sentence terminator the loop does advance, by 800 characters
  per iteration, and returns: lemma \<open>chunkText_plain_returns\<close>.)
\<close>

theorem chunkText_stalls:
  "trim (collapseWhitespace stallingText) = stallingText
   \<and> fst (chunkStep stallingText 0 []) = 199
   \<and> chunkStep stallingText 199 cs = (199, cs @ [replicate 199 (CHR ''a'')])
   \<and> chunkText stallingText = None"
proof -
  have "chunkLoop stallingText 0 [] = None"
    using chunkLoop_step [of 0 stallingText "[]"]
    by (simp add: chunkStep_stalling_0 length_stallingText chunkLoop_stalling)
  then have "chunkText stallingText = None"
    by (simp add: chunkText_def normalize_stallingText length_stallingText chunkSize_def)
  then show ?thesis
    by (simp add: normalize_stallingText chunkStep_stalling_0 chunkStep_stalling_199)
qed

subsection \<open>The bound that does hold for every chunk\<close>

lemma lastIndexUpTo_bounds:
  "best \<le> limit \<Longrightarrow> -1 \<le> best \<Longrightarrow> 0 \<le> i \<Longrightarrow>
   lastIndexUpTo ch s i limit best \<le> limit \<and> -1 \<le> lastIndexUpTo ch s i limit best"
  by (induction s arbitrary: i best) auto

lemma lastIndexOf_bounds: "lastIndexOf s ch p \<le> max p 0 \<and> -1 \<le> lastIndexOf s ch p"
  using lastIndexUpTo_bounds [of "-1" "max p 0" 0 ch s] by (simp add: lastIndexOf_def)

lemma chunkEnd_bounds:
  assumes "0 \<le> s"
  shows "s < chunkEnd t s \<and> chunkEnd t s \<le> s + chunkSize + 1"
proof -
  have b: "lastIndexOf t ch (s + 1000) \<le> s + 1000" for ch
    using lastIndexOf_bounds [of t ch "s + 1000"] assms by simp
  show ?thesis
    using b [of "CHR ''.''"] b [of "CHR ''!''"] b [of "CHR ''?''"] b [of "CHR '' ''"] assms
    by (auto simp: chunkEnd_def chunkSize_def Let_def max_def)
qed

lemma length_trim_le: "length (trim x) \<le> length x"
proof -
  have "length (dropWhile isWhitespace (rev (dropWhile isWhitespace x))) \<le> length (rev (dropWhile isWhitespace x))"
    by (rule length_dropWhile_le)
  also have "\<dots> \<le> length x"
    by (simp add: length_dropWhile_le)
  finally show ?thesis by (simp add: trim_def)
qed

lemma length_substring_le: "0 \<le> a \<Longrightarrow> a \<le> b \<Longrightarrow> int (length (substring t a b)) \<le> b - a"
  by (auto simp: substring_def Let_def min_def max_def)

lemma indexOfFrom_lower: "0 \<le> i \<Longrightarrow> -1 \<le> indexOfFrom p s i"
  by (induction s arbitrary: i) auto

lemma chunkStep_invariant:
  assumes "0 \<le> s" "\<forall>c\<in>set cs. int (length c) \<le> chunkSize + 1"
  shows "0 \<le> fst (chunkStep t s cs) \<and> (\<forall>c\<in>set (snd (chunkStep t s cs)). int (length c) \<le> chunkSize + 1)"
proof -
  let ?e = "chunkEnd t s"
  let ?chunk = "trim (substring t s ?e)"
  have e: "s < ?e" "?e \<le> s + chunkSize + 1"
    using chunkEnd_bounds [OF assms(1), of t] by simp_all
  have "int (length ?chunk) \<le> int (length (substring t s ?e))"
    using length_trim_le by simp
  also have "\<dots> \<le> ?e - s"
    using assms(1) e(1) by (intro length_substring_le) simp_all
  finally have len: "int (length ?chunk) \<le> chunkSize + 1"
    using e(2) by simp
  have idx: "-1 \<le> indexOf t p" for p
    by (simp add: indexOf_def indexOfFrom_lower)
  have start: "0 \<le> fst (chunkStep t s cs)"
  proof -
    define pushed where "pushed = (if 0 < length ?chunk then cs @ [?chunk] else cs)"
    define lastChunkIndex where
      "lastChunkIndex = (if 0 < length pushed then indexOf t (last pushed) else 0)"
    have "-1 \<le> lastChunkIndex"
      using idx by (simp add: lastChunkIndex_def)
    moreover have "fst (chunkStep t s cs) =
        (if ?e - chunkOverlap \<le> lastChunkIndex then ?e else ?e - chunkOverlap)"
      by (simp add: chunkStep_def Let_def lastChunkIndex_def pushed_def)
    ultimately show ?thesis
      using e(1) assms(1) by (simp add: chunkOverlap_def)
  qed
  have "\<forall>c\<in>set (snd (chunkStep t s cs)). int (length c) \<le> chunkSize + 1"
    using assms(2) len by (auto simp: chunkStep_def Let_def)
  with start show ?thesis by simp
qed

lemma chunkLoop_bound:
  "chunkLoop t s cs = Some r \<Longrightarrow>
   0 \<le> s \<and> (\<forall>c\<in>set cs. int (length c) \<le> chunkSize + 1) \<longrightarrow> (\<forall>c\<in>set r. int (length c) \<le> chunkSize + 1)"
proof (rule chunkLoop.raw_induct [where P = "\<lambda>t s cs r.
      0 \<le> s \<and> (\<forall>c\<in>set cs. int (length c) \<le> chunkSize + 1) \<longrightarrow> (\<forall>c\<in>set r. int (length c) \<le> chunkSize + 1)"
      and normalizedText = t and startIndex = s and chunks = cs and y = r])
  fix f t s cs r
  assume IH: "\<And>t s cs r. f t s cs = Some r \<Longrightarrow>
      0 \<le> s \<and> (\<forall>c\<in>set cs. int (length c) \<le> chunkSize + 1) \<longrightarrow> (\<forall>c\<in>set r. int (length c) \<le> chunkSize + 1)"
    and body: "(if s < int (length t) then
        (case chunkStep t s cs of (startIndex', chunks') \<Rightarrow> f t startIndex' chunks')
      else Some cs) = Some r"
  show "0 \<le> s \<and> (\<forall>c\<in>set cs. int (length c) \<le> chunkSize + 1) \<longrightarrow> (\<forall>c\<in>set r. int (length c) \<le> chunkSize + 1)"
  proof
    assume a: "0 \<le> s \<and> (\<forall>c\<in>set cs. int (length c) \<le> chunkSize + 1)"
    show "\<forall>c\<in>set r. int (length c) \<le> chunkSize + 1"
    proof (cases "s < int (length t)")
      case False
      with body a show ?thesis by simp
    next
      case True
      with body have "f t (fst (chunkStep t s cs)) (snd (chunkStep t s cs)) = Some r"
        by (simp add: case_prod_beta)
      from IH [OF this] chunkStep_invariant [of s cs t] a show ?thesis by blast
    qed
  qed
next
  assume "chunkLoop t s cs = Some r"
  then show "chunkLoop t s cs = Some r" .
qed

lemma chunkText_chunk_bound:
  assumes "chunkText t = Some r" "c \<in> set r"
  shows "int (length c) \<le> chunkSize + 1"
proof (cases "int (length (trim (collapseWhitespace t))) \<le> chunkSize")
  case True
  with assms show ?thesis by (auto simp: chunkText_def)
next
  case False
  with assms(1) have "chunkLoop (trim (collapseWhitespace t)) 0 [] = Some r"
    by (simp add: chunkText_def)
  from chunkLoop_bound [OF this] assms(2) show ?thesis by simp
qed

subsection \<open>The document with a chunk of 1001 characters\<close>

lemma length_overlongText: "length overlongText = 1002"
  by (simp add: overlongText_def)

lemma normalize_overlongText: "trim (collapseWhitespace overlongText) = overlongText"
proof -
  have "collapseWhitespace overlongText = overlongText"
    by (simp add: collapseWhitespace_def overlongText_def collapseFrom_replicate ws_simps)
  moreover have "trim overlongText = overlongText"
    by (rule trim_id) (simp_all add: overlongText_def ws_simps hd_append)
  ultimately show ?thesis by simp
qed

lemma chunkEnd_overlong_0: "chunkEnd overlongText 0 = 1001"
  by (simp add: chunkEnd_def overlongText_def chunkSize_def lastIndexOf_def lastIndexUpTo_append
      lastIndexUpTo_replicate_other Let_def)

lemma chunkEnd_overlong_801: "chunkEnd overlongText 801 = 1801"
  by (simp add: chunkEnd_def chunkSize_def length_overlongText Let_def)

lemma chunkStep_overlong_0:
  "chunkStep overlongText 0 [] = (801, [replicate 1000 (CHR ''a'') @ ''.''])"
proof -
  have s: "substring overlongText 0 1001 = replicate 1000 (CHR ''a'') @ ''.''"
    by (simp add: substring_def overlongText_def)
  have t: "trim (substring overlongText 0 1001) = replicate 1000 (CHR ''a'') @ ''.''"
    unfolding s by (rule trim_id) (simp_all add: ws_simps hd_append)
  have "indexOf overlongText (replicate 1000 (CHR ''a'') @ ''.'') = 0"
    by (rule indexOf_prefix) (simp_all add: overlongText_def)
  then show ?thesis
    by (simp add: chunkStep_def chunkEnd_overlong_0 t chunkOverlap_def Let_def)
qed

lemma chunkStep_overlong_801:
  "snd (chunkStep overlongText 801 cs) = cs @ [replicate 199 (CHR ''a'') @ ''.a'']
   \<and> 1002 \<le> fst (chunkStep overlongText 801 cs)"
proof -
  have s: "substring overlongText 801 1801 = replicate 199 (CHR ''a'') @ ''.a''"
    by (simp add: substring_def overlongText_def)
  have t: "trim (substring overlongText 801 1801) = replicate 199 (CHR ''a'') @ ''.a''"
    unfolding s by (rule trim_id) (simp_all add: ws_simps hd_append)
  show ?thesis
    by (simp add: chunkStep_def chunkEnd_overlong_801 t chunkOverlap_def Let_def)
qed

text \<open>
  C5. A chunk can be one character longer than the chunk size. The sentence search
  \<open>lastIndexOf('.', endIndex)\<close> includes the index \<open>endIndex\<close> itself, and the cut is made
  after the terminator found, so on \<open>overlongText\<close>, whose normalized form has 1002
  characters, the first chunk returned has 1001 characters. (A text whose normalized form
  has at most 1000 characters is returned as the single chunk, lemma
  \<open>chunkText_single_chunk\<close>, and no chunk is ever longer than 1001 characters, lemma
  \<open>chunkText_chunk_bound\<close>.)
\<close>

theorem chunkText_overlong_chunk:
  "length (trim (collapseWhitespace overlongText)) = 1002
   \<and> chunkText overlongText =
       Some [replicate 1000 (CHR ''a'') @ ''.'', replicate 199 (CHR ''a'') @ ''.a'']
   \<and> int (length (replicate 1000 (CHR ''a'') @ ''.'')) = chunkSize + 1"
proof -
  have "chunkLoop overlongText 0 [] = chunkLoop overlongText 801 [replicate 1000 (CHR ''a'') @ ''.'']"
    using chunkLoop_step [of 0 overlongText "[]"]
    by (simp add: chunkStep_overlong_0 length_overlongText)
  also have "\<dots> = chunkLoop overlongText (fst (chunkStep overlongText 801 [replicate 1000 (CHR ''a'') @ ''.'']))
                     [replicate 1000 (CHR ''a'') @ ''.'', replicate 199 (CHR ''a'') @ ''.a'']"
    using chunkLoop_step [of 801 overlongText "[replicate 1000 (CHR ''a'') @ ''.'']"]
      chunkStep_overlong_801 [of "[replicate 1000 (CHR ''a'') @ ''.'']"]
    by (simp add: length_overlongText)
  also have "\<dots> = Some [replicate 1000 (CHR ''a'') @ ''.'', replicate 199 (CHR ''a'') @ ''.a'']"
    using chunkStep_overlong_801 [of "[replicate 1000 (CHR ''a'') @ ''.'']"]
    by (intro chunkLoop_exit) (simp add: length_overlongText)
  finally show ?thesis
    by (simp add: chunkText_def normalize_overlongText length_overlongText chunkSize_def)
qed

section \<open>Properties of the ambiguity pre-check\<close>

lemma heuristics_fourth_check:
  assumes "10 \<le> length (trim r)" "\<not> keywordPrefix vaguePronouns (trim r)" "\<not> hasDoubleQuestion r"
  shows "isAmbiguous (checkAmbiguityHeuristics r) \<longleftrightarrow> \<not> hasActionWord r \<or> length (trim r) < 20"
  using assms by (auto simp: checkAmbiguityHeuristics_def hasReasonableLength_def)

lemma detectAmbiguity_fast_path:
  "isAmbiguous (checkAmbiguityHeuristics r) \<Longrightarrow>
   detectAmbiguity rt llm r = (checkAmbiguityHeuristics r, [])"
  by (simp add: detectAmbiguity_def Let_def)

text \<open>
  C1, as stated, fails. The request \<open>get all orders\<close> passes the first three checks and
  contains the action verb \<open>get\<close>, yet the heuristic tier flags it as ambiguous, because
  its 14 characters are fewer than 20: the fourth check is a disjunction.
\<close>

theorem short_request_with_action_verb_is_flagged:
  "10 \<le> length (trim ''get all orders'')
   \<and> \<not> keywordPrefix vaguePronouns (trim ''get all orders'')
   \<and> \<not> hasDoubleQuestion ''get all orders''
   \<and> isAmbiguous (checkAmbiguityHeuristics ''get all orders'')
   \<and> \<not> (\<not> hasActionWord ''get all orders'' \<and> length (trim ''get all orders'') < 20)"
  by code_simp

text \<open>
  C1, amended. A request that passes the first three heuristic checks (trimmed length at
  least 10, no leading bare pronoun, no two consecutive question marks) is flagged as
  ambiguous by the heuristic tier exactly when it lacks every recognized action verb OR
  its trimmed length is below 20. A request that the heuristic tier flags makes
  \<open>detectAmbiguity\<close> return the heuristic result, with \<open>isAmbiguous = true\<close>, without any
  call to the completion client.
\<close>

theorem heuristic_tier_flags_on_either_condition:
  "(10 \<le> length (trim r) \<and> \<not> keywordPrefix vaguePronouns (trim r) \<and> \<not> hasDoubleQuestion r \<longrightarrow>
      (isAmbiguous (checkAmbiguityHeuristics r) \<longleftrightarrow> \<not> hasActionWord r \<or> length (trim r) < 20))
   \<and> (isAmbiguous (checkAmbiguityHeuristics r') \<longrightarrow>
        isAmbiguous (fst (detectAmbiguity rt llm r'))
        \<and> detectAmbiguity rt llm r' = (checkAmbiguityHeuristics r', []))"
  using heuristics_fourth_check [of r] detectAmbiguity_fast_path [of r' rt llm] by auto

theorem heuristic_tier_flags_on_either_condition_witness:
  "10 \<le> length (trim ''list every order placed today'')
   \<and> \<not> keywordPrefix vaguePronouns (trim ''list every order placed today'')
   \<and> \<not> hasDoubleQuestion ''list every order placed today''
   \<and> hasActionWord ''list every order placed today''
   \<and> \<not> isAmbiguous (checkAmbiguityHeuristics ''list every order placed today'')
   \<and> isAmbiguous (checkAmbiguityHeuristics ''it'')
   \<and> snd (detectAmbiguity exampleRuntime (\<lambda>sys usr t attempt. Inl abortError) ''it'') = []
   \<and> isAmbiguous (fst (detectAmbiguity exampleRuntime (\<lambda>sys usr t attempt. Inl abortError) ''it''))"
proof -
  have p: "10 \<le> length (trim ''list every order placed today'')
      \<and> \<not> keywordPrefix vaguePronouns (trim ''list every order placed today'')
      \<and> \<not> hasDoubleQuestion ''list every order placed today''"
    by code_simp
  have a: "hasActionWord ''list every order placed today''"
    by code_simp
  have l: "\<not> length (trim ''list every order placed today'') < 20"
    by code_simp
  have i: "isAmbiguous (checkAmbiguityHeuristics ''it'')"
    by code_simp
  show ?thesis
    using heuristic_tier_flags_on_either_condition [of "''list every order placed today''" "''it''"
        exampleRuntime "\<lambda>sys usr t attempt. Inl abortError"] p a l i
    by simp
qed

section \<open>Properties of the output validator\<close>

lemma isValid_validateSQL: "isValid (validateSQL c) \<longleftrightarrow> errors (validateSQL c) = []"
  by (simp add: validateSQL_def Let_def)

lemma isValid_invalidJson: "isValid (invalidJson m st) \<longleftrightarrow> errors (invalidJson m st) = []"
  by (simp add: invalidJson_def)

lemma isValid_finish: "isValid (finish r) \<longleftrightarrow> errors (finish r) = []"
  by (cases r) (auto simp: finish_def invalidJson_def split: option.splits)

lemma isValid_validateN8nWorkflow:
  "isValid (validateN8nWorkflow rt c) \<longleftrightarrow> errors (validateN8nWorkflow rt c) = []"
  by (simp add: validateN8nWorkflow_def isValid_invalidJson isValid_finish split: sum.splits)

lemma isValid_validateFormioForm:
  "isValid (validateFormioForm rt c) \<longleftrightarrow> errors (validateFormioForm rt c) = []"
  by (simp add: validateFormioForm_def isValid_invalidJson isValid_finish split: sum.splits)

text \<open>
  C10. For every code string, every output type (one of the three known ones or any other
  string) and every behaviour of the host built-ins, the result of \<open>validateOutput\<close> is
  valid exactly when its list of errors is empty. This covers the early return of
  \<open>validateSQL\<close> on empty input, the \<open>catch\<close> blocks of the two JSON validators and the
  fallback for an unknown output type; suggestions play no part.
\<close>

theorem validateOutput_valid_iff_no_errors:
  "isValid (validateOutput rt c ot) \<longleftrightarrow> errors (validateOutput rt c ot) = []"
  by (simp add: validateOutput_def isValid_validateSQL isValid_validateN8nWorkflow
      isValid_validateFormioForm)

theorem validateOutput_valid_iff_no_errors_witness:
  "isValid (validateOutput exampleRuntime ''SELECT * FROM users'' ''sql'')
   \<and> errors (validateOutput exampleRuntime ''SELECT * FROM users'' ''sql'') = []
   \<and> \<not> isValid (validateOutput exampleRuntime ''SELECT * FROM users'' ''n8n'')
   \<and> errors (validateOutput exampleRuntime ''SELECT * FROM users'' ''n8n'') \<noteq> []"
proof -
  have "errors (validateOutput exampleRuntime ''SELECT * FROM users'' ''sql'') = []"
    by code_simp
  moreover have "errors (validateOutput exampleRuntime ''SELECT * FROM users'' ''n8n'') \<noteq> []"
    by code_simp
  ultimately show ?thesis
    using validateOutput_valid_iff_no_errors [of exampleRuntime "''SELECT * FROM users''" "''sql''"]
      validateOutput_valid_iff_no_errors [of exampleRuntime "''SELECT * FROM users''" "''n8n''"]
    by simp
qed

subsection \<open>SQL\<close>

lemma validateOutput_sql: "validateOutput rt c ''sql'' = validateSQL c"
  by (simp add: validateOutput_def)

lemma sql_example_empty:
  "validateSQL [] = \<lparr>isValid = False, errors = [''Generated SQL is empty''], suggestions = []\<rparr>"
  by code_simp

lemma sql_example_valid:
  "validateSQL ''SELECT * FROM users'' = \<lparr>isValid = True, errors = [], suggestions = []\<rparr>"
  by code_simp

lemma sql_example_missing_from:
  "validateSQL ''SELECT * WHERE x=1'' =
     \<lparr>isValid = False, errors = [''SELECT statement missing FROM clause''],
      suggestions = [''Add a FROM clause to specify the table(s) to query'']\<rparr>"
  by code_simp

lemma sql_example_unbalanced:
  "validateSQL ''SELECT (1'' =
     \<lparr>isValid = False,
      errors = [''Unbalanced parentheses in SQL query'', ''SELECT statement missing FROM clause''],
      suggestions = [''Check for missing opening or closing parentheses'',
                     ''Add a FROM clause to specify the table(s) to query'']\<rparr>"
  by code_simp

lemma missing_from_error_iff:
  "''SELECT statement missing FROM clause'' \<in> set (errors (validateSQL c)) \<longleftrightarrow>
     trim c \<noteq> [] \<and> testKeyword [''SELECT''] (trim c) \<and> \<not> testKeyword [''FROM''] (trim c)
     \<and> \<not> isSimpleSelect (trim c)"
  by (simp add: validateSQL_def Let_def pushError_def pushSuggestion_def)

text \<open>
  C8, as stated, fails in its general rule. \<open>SELECT 1 WHERE x=1\<close> is a \<open>SELECT\<close> without
  \<open>FROM\<close> and is not a literal select with nothing else, since a \<open>WHERE\<close> clause follows
  the literal; the validator accepts it without any error, because its pattern for the
  exception only asks for a digit or quote after \<open>SELECT\<close> and for no semicolon after
  that.
\<close>

theorem select_literal_with_where_is_accepted:
  "testKeyword [''SELECT''] (trim ''SELECT 1 WHERE x=1'')
   \<and> \<not> testKeyword [''FROM''] (trim ''SELECT 1 WHERE x=1'')
   \<and> \<not> specSimpleLiteralSelect (trim ''SELECT 1 WHERE x=1'')
   \<and> validateOutput exampleRuntime ''SELECT 1 WHERE x=1'' ''sql'' =
       \<lparr>isValid = True, errors = [], suggestions = []\<rparr>"
  by code_simp

text \<open>
  C8, amended. With output type \<open>sql\<close>, \<open>validateOutput\<close> returns: for the empty string an
  invalid result with the empty-SQL error; for \<open>SELECT * FROM users\<close> a valid result with
  no errors; for \<open>SELECT * WHERE x=1\<close> an invalid result with the missing-FROM error; for
  \<open>SELECT (1\<close> an invalid result with the unbalanced-parentheses error (and the
  missing-FROM error). In general the missing-FROM error is reported exactly when the
  trimmed text is not empty, contains the word \<open>SELECT\<close>, does not contain the word \<open>FROM\<close>
  and does not match the code's simple-select pattern: \<open>SELECT\<close>, white space, then a
  digit or a quote character, with no semicolon from there to the end of the text.
\<close>

theorem sql_examples_and_missing_from_rule:
  "validateOutput rt [] ''sql'' =
     \<lparr>isValid = False, errors = [''Generated SQL is empty''], suggestions = []\<rparr>
   \<and> validateOutput rt ''SELECT * FROM users'' ''sql'' =
       \<lparr>isValid = True, errors = [], suggestions = []\<rparr>
   \<and> validateOutput rt ''SELECT * WHERE x=1'' ''sql'' =
       \<lparr>isValid = False, errors = [''SELECT statement missing FROM clause''],
        suggestions = [''Add a FROM clause to specify the table(s) to query'']\<rparr>
   \<and> \<not> isValid (validateOutput rt ''SELECT (1'' ''sql'')
   \<and> ''Unbalanced parentheses in SQL query'' \<in> set (errors (validateOutput rt ''SELECT (1'' ''sql''))
   \<and> (''SELECT statement missing FROM clause'' \<in> set (errors (validateOutput rt c ''sql'')) \<longleftrightarrow>
        trim c \<noteq> [] \<and> testKeyword [''SELECT''] (trim c) \<and> \<not> testKeyword [''FROM''] (trim c)
        \<and> \<not> isSimpleSelect (trim c))"
  unfolding validateOutput_sql
  using missing_from_error_iff [of c]
  by (simp add: sql_example_empty sql_example_valid sql_example_missing_from sql_example_unbalanced)

theorem sql_examples_and_missing_from_rule_witness:
  "trim ''SELECT 1'' \<noteq> [] \<and> testKeyword [''SELECT''] (trim ''SELECT 1'')
   \<and> \<not> testKeyword [''FROM''] (trim ''SELECT 1'') \<and> isSimpleSelect (trim ''SELECT 1'')
   \<and> ''SELECT statement missing FROM clause'' \<notin> set (errors (validateOutput exampleRuntime ''SELECT 1'' ''sql''))
   \<and> \<not> isSimpleSelect (trim ''SELECT 1;'')
   \<and> ''SELECT statement missing FROM clause'' \<in> set (errors (validateOutput exampleRuntime ''SELECT 1;'' ''sql''))"
proof -
  have a: "trim ''SELECT 1'' \<noteq> [] \<and> testKeyword [''SELECT''] (trim ''SELECT 1'')
      \<and> \<not> testKeyword [''FROM''] (trim ''SELECT 1'') \<and> isSimpleSelect (trim ''SELECT 1'')"
    by code_simp
  have b: "trim ''SELECT 1;'' \<noteq> [] \<and> testKeyword [''SELECT''] (trim ''SELECT 1;'')
      \<and> \<not> testKeyword [''FROM''] (trim ''SELECT 1;'') \<and> \<not> isSimpleSelect (trim ''SELECT 1;'')"
    by code_simp
  show ?thesis
    using sql_examples_and_missing_from_rule [of exampleRuntime "''SELECT 1''"]
      sql_examples_and_missing_from_rule [of exampleRuntime "''SELECT 1;''"] a b
    by simp
qed

subsection \<open>n8n workflows\<close>

lemma isIsolated_last: "isIsolatedSuggestion s \<Longrightarrow> last s = CHR '')''"
proof -
  assume a: "isIsolatedSuggestion s"
  let ?c = "''\" appears to be isolated (no connections)''"
  from a have d: "drop (length s - length ?c) s = ?c" and l: "length ?c \<le> length s"
    by (simp_all add: isIsolatedSuggestion_def Let_def)
  have "last s = last (drop (length s - length ?c) s)"
    using l by (subst last_drop) simp_all
  then show ?thesis unfolding d by simp
qed

lemma isIsolated_isolatedMessage: "isIsolatedSuggestion (isolatedMessage x)"
  by (simp add: isIsolatedSuggestion_def isolatedMessage_def Let_def)

lemma keeps_skip: "keepsSuggestions Q skip"
  by (simp add: keepsSuggestions_def skip_def)

lemma keeps_throw: "keepsSuggestions Q (throw m)"
  by (simp add: keepsSuggestions_def throw_def)

lemma keeps_addError: "keepsSuggestions Q (addError m)"
  by (simp add: keepsSuggestions_def addError_def pushError_def)

lemma keeps_addSuggestion: "Q m \<Longrightarrow> keepsSuggestions Q (addSuggestion m)"
  by (simp add: keepsSuggestions_def addSuggestion_def pushSuggestion_def)

lemma keeps_seq: "keepsSuggestions Q f \<Longrightarrow> keepsSuggestions Q g \<Longrightarrow> keepsSuggestions Q (seq f g)"
proof -
  assume f: "keepsSuggestions Q f" and g: "keepsSuggestions Q g"
  show ?thesis
    unfolding keepsSuggestions_def
  proof (intro allI impI)
    fix st :: vstate
    assume a: "list_all Q (snd st)"
    obtain e st' where r: "f st = (e, st')" by (cases "f st")
    from f a have "list_all Q (snd (snd (f st)))"
      unfolding keepsSuggestions_def by blast
    with r have b: "list_all Q (snd st')"
      by simp
    show "list_all Q (snd (snd (seq f g st)))"
    proof (cases e)
      case None
      from g b have "list_all Q (snd (snd (g st')))"
        unfolding keepsSuggestions_def by blast
      with None r show ?thesis by (simp add: seq_def)
    next
      case (Some m)
      with r b show ?thesis by (simp add: seq_def)
    qed
  qed
qed

lemma keeps_ifThen: "(c \<Longrightarrow> keepsSuggestions Q f) \<Longrightarrow> keepsSuggestions Q (ifThen c f)"
  by (simp add: ifThen_def keeps_skip)

lemma keeps_withE: "(\<And>v. r = Inr v \<Longrightarrow> keepsSuggestions Q (k v)) \<Longrightarrow> keepsSuggestions Q (withE r k)"
  by (cases r) (simp_all add: withE_def keeps_throw)

lemma keeps_forEachFrom:
  "(\<And>x i. x \<in> set xs \<Longrightarrow> keepsSuggestions Q (body x i)) \<Longrightarrow> keepsSuggestions Q (forEachFrom body xs n)"
  by (induction xs arbitrary: n) (simp_all add: keeps_skip keeps_seq)

lemma no_parameters_not_isolated:
  "\<not> isIsolatedSuggestion (''Node \"'' @ x @ ''\" has no parameters - verify this is intentional'')"
  using isIsolated_last [of "''Node \"'' @ x @ ''\" has no parameters - verify this is intentional''"]
  by auto

lemma ensure_not_isolated: "\<not> isIsolatedSuggestion ''Ensure the generated code is valid JSON format''"
  using isIsolated_last [of "''Ensure the generated code is valid JSON format''"] by auto

lemma justified_not_isolated: "\<not> isIsolatedSuggestion s \<Longrightarrow> justified rt nodes conns s"
  by (simp add: justified_def)

lemma keeps_checkNode: "keepsSuggestions (justified rt nodes conns) (checkNode rt' node i)"
  unfolding checkNode_def
  by (intro keeps_withE keeps_seq keeps_ifThen keeps_addError keeps_addSuggestion
      justified_not_isolated no_parameters_not_isolated)

text \<open>
  The set that the validator builds holds exactly the names that appear in
  \<open>connections\<close> as a source or as a target.
\<close>

lemma in_concat_map: "t \<in> set (concat (map f xs)) \<longleftrightarrow> (\<exists>x\<in>set xs. t \<in> set (f x))"
  by auto

lemma in_array_elements:
  "t \<in> set (if isArray (Val x) then concat (map f (elements (Val x))) else []) \<longleftrightarrow>
     (\<exists>y\<in>set (elements (Val x)). t \<in> set (f y))"
  by (cases x) auto

lemma in_named_target:
  "t \<in> set (if truthy (Val c) \<and> truthy (getProp c ''node'')
              then (case getProp c ''node'' of Val n \<Rightarrow> [n] | _ \<Rightarrow> []) else [])
     \<longleftrightarrow> namesTarget c t"
proof (cases "getProp c ''node''")
  case Undefined
  have "(if truthy (Val c) \<and> truthy (getProp c ''node'')
              then (case getProp c ''node'' of Val n \<Rightarrow> [n] | _ \<Rightarrow> []) else []) = []"
    by (simp only: Undefined jsval.case if_cancel)
  then show ?thesis
    by (simp only: namesTarget_def Undefined) simp
next
  case Builtin
  have "(if truthy (Val c) \<and> truthy (getProp c ''node'')
              then (case getProp c ''node'' of Val n \<Rightarrow> [n] | _ \<Rightarrow> []) else []) = []"
    by (simp only: Builtin jsval.case if_cancel)
  then show ?thesis
    by (simp only: namesTarget_def Builtin) simp
next
  case (Val n)
  have "(if truthy (Val c) \<and> truthy (getProp c ''node'')
              then (case getProp c ''node'' of Val n \<Rightarrow> [n] | _ \<Rightarrow> []) else []) =
        (if truthy (Val c) \<and> truthy (Val n) then [n] else [])"
    by (simp only: Val jsval.case)
  then show ?thesis
    by (simp only: namesTarget_def Val) auto
qed

lemma set_targetsOf:
  "t \<in> set (targetsOf v) \<longleftrightarrow>
     (\<exists>links\<in>set (ownValues v). \<exists>link\<in>set (elements (Val links)).
        \<exists>entry\<in>set (elements (Val link)). namesTarget entry t)"
  unfolding targetsOf_def in_concat_map in_array_elements in_named_target
  apply (rule refl)
  done

lemma no_targets_unless_object:
  assumes "\<not> (truthy (Val v) \<and> typeofObject (Val v))"
  shows "\<not> (\<exists>links\<in>set (ownValues v). \<exists>link\<in>set (elements (Val links)). P links link)"
  using assms by (cases v) auto

lemma set_connectedNodes:
  "t \<in> set (connectedNodes c) \<longleftrightarrow> appearsAsSource c t \<or> appearsAsTarget c t"
proof -
  have one: "t \<in> set (let nodeConnections = getProp c k in
        if truthy nodeConnections \<and> typeofObject nodeConnections
        then (case nodeConnections of Val v \<Rightarrow> targetsOf v | _ \<Rightarrow> [])
        else [])
      \<longleftrightarrow> (\<exists>outputs\<in>set (case getProp c k of Val v \<Rightarrow> [v] | _ \<Rightarrow> []).
        \<exists>links\<in>set (ownValues outputs). \<exists>link\<in>set (elements (Val links)).
          \<exists>entry\<in>set (elements (Val link)). namesTarget entry t)" for k
  proof (cases "getProp c k")
    case (Val v)
    show ?thesis
    proof (cases "truthy (Val v) \<and> typeofObject (Val v)")
      case True
      with Val show ?thesis by (simp add: set_targetsOf)
    next
      case False
      from no_targets_unless_object [OF this] Val False show ?thesis by auto
    qed
  qed simp_all
  have "t \<in> set (connectedNodes c) \<longleftrightarrow>
      (\<exists>k\<in>set (ownKeys c). t = JStr k \<or>
         (\<exists>outputs\<in>set (case getProp c k of Val v \<Rightarrow> [v] | _ \<Rightarrow> []).
            \<exists>links\<in>set (ownValues outputs). \<exists>link\<in>set (elements (Val links)).
              \<exists>entry\<in>set (elements (Val link)). namesTarget entry t))"
    unfolding connectedNodes_def in_concat_map list.set insert_iff one
    by (rule refl)
  then show ?thesis
    unfolding appearsAsSource_def appearsAsTarget_def by blast
qed

lemma setHas_connectedNodesOf:
  "setHas (connectedNodesOf conns) name \<longleftrightarrow> appearsInConnections conns name"
  by (cases conns; cases name) (simp_all add: set_connectedNodes)


lemma appearsAsSource_object:
  "appearsAsSource (JObj kvs) name \<longleftrightarrow> (\<exists>k v. (k, v) \<in> set kvs \<and> name = JStr k)"
  by (force simp: appearsAsSource_def)

lemma ownValues_object: "map_of kvs k = Some v \<Longrightarrow> v \<in> set (ownValues (JObj kvs))"
proof -
  assume a: "map_of kvs k = Some v"
  then have "k \<in> set (map fst kvs)"
    by (metis map_of_eq_None_iff option.distinct(1) set_map)
  then have "the (map_of kvs k) \<in> set (ownValues (JObj kvs))"
    by simp
  with a show ?thesis by simp
qed

lemma appearsAsTarget_object:
  assumes "map_of kvs k = Some outputs" "map_of outs output = Some (JArr links)" "outputs = JObj outs"
    "JArr link \<in> set links" "JObj entry \<in> set link" "map_of entry ''node'' = Some (JStr t)" "t \<noteq> []"
  shows "appearsAsTarget (JObj kvs) (JStr t)"
proof -
  have k: "k \<in> set (ownKeys (JObj kvs))"
    using assms(1) by (simp, metis map_of_eq_None_iff option.distinct(1))
  have o: "outputs \<in> set (case getProp (JObj kvs) k of Val v \<Rightarrow> [v] | _ \<Rightarrow> [])"
    using assms(1) by simp
  have l: "JArr links \<in> set (ownValues outputs)"
    using ownValues_object [OF assms(2)] assms(3) by simp
  have n: "namesTarget (JObj entry) (JStr t)"
    using assms(6,7) by (simp add: namesTarget_def)
  show ?thesis
    unfolding appearsAsTarget_def
    using k o l assms(4,5) n by (metis elements.simps(1))
qed

lemma keeps_isolatedNode:
  assumes "x \<in> set ns" "1 < length ns"
  shows "keepsSuggestions (justified rt (Val (JArr ns)) conns) (isolatedNode rt (connectedNodesOf conns) x i)"
proof (cases "x = JNull")
  case True
  then show ?thesis
    by (simp add: isolatedNode_def getPropE_def withE_def keeps_throw)
next
  case False
  have "keepsSuggestions (justified rt (Val (JArr ns)) conns)
          (addSuggestion (''Node \"'' @ shown @ ''\" appears to be isolated (no connections)''))"
    if "\<not> setHas (connectedNodesOf conns) (getProp x ''name'')"
      "toStr rt (getProp x ''name'') = Inr shown" for shown
  proof (rule keeps_addSuggestion)
    have "''Node \"'' @ shown @ ''\" appears to be isolated (no connections)'' = isolatedMessage shown"
      by (simp add: isolatedMessage_def)
    then show "justified rt (Val (JArr ns)) conns
        (''Node \"'' @ shown @ ''\" appears to be isolated (no connections)'')"
      unfolding justified_def using assms that by (auto simp: setHas_connectedNodesOf)
  qed
  then show ?thesis
    using False unfolding isolatedNode_def getPropE_def
    by (auto simp: withE_def keeps_throw intro!: keeps_ifThen keeps_withE split: sum.splits)
qed

lemma keeps_checkIsolated:
  "keepsSuggestions (justified rt nodes conns) (checkIsolated rt nodes conns)"
proof (cases "truthy nodes \<and> truthy conns")
  case False
  then show ?thesis by (auto simp: checkIsolated_def keeps_skip)
next
  case True
  show ?thesis
  proof (cases "\<exists>ns. nodes = Val (JArr ns)")
    case False
    have "keepsSuggestions (justified rt nodes conns) (case nodes of
               Val (JArr ns) \<Rightarrow> forEach (isolatedNode rt (connectedNodesOf conns)) ns
             | _ \<Rightarrow> throw (notAFunctionMessage rt ''workflow.nodes.forEach''))"
      using False by (auto simp: keeps_throw split: jsval.splits json.splits)
    then show ?thesis
      using True unfolding checkIsolated_def
      by (auto intro!: keeps_withE keeps_ifThen)
  next
    case True
    then obtain ns where ns: "nodes = Val (JArr ns)" by blast
    show ?thesis
    proof (cases "1 < length ns")
      case False
      then have "greaterThanOne rt (getPropV nodes ''length'') = Inr False"
        by (simp add: ns)
      then show ?thesis
        unfolding checkIsolated_def
        by (auto simp: withE_def ifThen_def keeps_skip)
    next
      case True
      then have "keepsSuggestions (justified rt (Val (JArr ns)) conns)
                   (forEach (isolatedNode rt (connectedNodesOf conns)) ns)"
        unfolding forEach_def by (intro keeps_forEachFrom keeps_isolatedNode)
      then show ?thesis
        unfolding checkIsolated_def ns
        by (auto intro!: keeps_withE keeps_ifThen simp: keeps_skip)
    qed
  qed
qed

lemma keeps_validateN8nBody:
  "keepsSuggestions (justified rt (getProp workflow ''nodes'') (getProp workflow ''connections''))
     (validateN8nBody rt workflow)"
proof (cases "workflow = JNull")
  case True
  then show ?thesis by (simp add: validateN8nBody_def getPropE_def withE_def keeps_throw)
next
  case False
  then show ?thesis
    unfolding validateN8nBody_def getPropE_def forEach_def
    by (auto simp: withE_def intro!: keeps_seq keeps_ifThen keeps_addError keeps_forEachFrom
        keeps_checkNode keeps_checkIsolated)
qed

lemma isolated_suggestion_justified:
  assumes "s \<in> set (suggestions (validateN8nWorkflow rt c))" "isIsolatedSuggestion s"
  shows "\<exists>parsed ns. jsonParse rt c = Inr parsed \<and> getProp parsed ''nodes'' = Val (JArr ns) \<and> 1 < length ns
           \<and> (\<exists>x\<in>set ns. \<not> appearsInConnections (getProp parsed ''connections'') (getProp x ''name'')
                 \<and> (\<exists>shown. toStr rt (getProp x ''name'') = Inr shown \<and> s = isolatedMessage shown))"
proof (cases "jsonParse rt c")
  case (Inl m)
  with assms show ?thesis
    by (auto simp: validateN8nWorkflow_def invalidJson_def ensure_not_isolated)
next
  case (Inr parsed)
  let ?Q = "justified rt (getProp parsed ''nodes'') (getProp parsed ''connections'')"
  obtain e st where r: "validateN8nBody rt parsed ([], []) = (e, st)"
    by (cases "validateN8nBody rt parsed ([], [])")
  have "list_all ?Q (snd (snd (validateN8nBody rt parsed ([], []))))"
  proof -
    have "list_all ?Q (snd (([], []) :: vstate))" by simp
    with keeps_validateN8nBody [of rt parsed] show ?thesis
      unfolding keepsSuggestions_def by blast
  qed
  then have q: "list_all ?Q (snd st)"
    using r by simp
  have "s \<in> set (snd st) \<or> s = ''Ensure the generated code is valid JSON format''"
    using assms(1) Inr r by (cases e) (auto simp: validateN8nWorkflow_def finish_def invalidJson_def)
  with assms(2) have "s \<in> set (snd st)"
    using ensure_not_isolated by auto
  with q have "?Q s"
    by (simp add: list_all_iff)
  with assms(2) Inr show ?thesis
    by (simp add: justified_def)
qed

lemma linked_example:
  "suggestions (validateN8nWorkflow exampleRuntime linkedWorkflowText) = [isolatedMessage ''C'']"
  by code_simp

lemma linked_example_appears:
  "appearsInConnections (getProp linkedWorkflow ''connections'') (Val (JStr ''A''))"
  "appearsInConnections (getProp linkedWorkflow ''connections'') (Val (JStr ''B''))"
  "\<not> appearsInConnections (getProp linkedWorkflow ''connections'') (Val (JStr ''C''))"
  by code_simp+

lemma n8n_no_nodes:
  "jsonParse rt c = Inr (JObj [(''nodes'', JArr []), (''connections'', JObj [])]) \<Longrightarrow>
   validateN8nWorkflow rt c =
     \<lparr>isValid = False, errors = [''n8n workflow must contain at least one node''], suggestions = []\<rparr>"
  by (simp add: validateN8nWorkflow_def validateN8nBody_def getPropE_def withE_def seq_def ifThen_def
      addError_def pushError_def skip_def checkIsolated_def forEach_def finish_def)

lemma n8n_single_node:
  assumes "jsonParse rt c = Inr workflow" "getProp workflow ''nodes'' = Val (JArr [node])"
    "getProp workflow ''connections'' = Val (JObj [])"
    "getProp node ''name'' = Val (JStr n)" "n \<noteq> []" "truthy (getProp node ''type'')"
    "getProp node ''position'' = Val (JObj p)"
  shows "validateN8nWorkflow rt c =
           \<lparr>isValid = True, errors = [],
            suggestions = (if truthy (getProp node ''parameters'') \<and> typeofObject (getProp node ''parameters'')
                           then [] else [''Node \"'' @ n @ ''\" has no parameters - verify this is intentional''])\<rparr>"
proof -
  have workflow: "workflow \<noteq> JNull" using assms(2) by auto
  have node: "node \<noteq> JNull" using assms(4) by auto
  show ?thesis
    using assms workflow node
    by (simp add: validateN8nWorkflow_def validateN8nBody_def getPropE_def withE_def seq_def ifThen_def
        addError_def pushError_def addSuggestion_def pushSuggestion_def skip_def checkIsolated_def
        forEach_def finish_def checkNode_def)
qed

text \<open>
  C9. The text \<open>{"nodes": [], "connections": {}}\<close> gives an invalid result whose only
  error says that the workflow must contain at least one node. A workflow whose \<open>nodes\<close>
  array holds exactly one well-formed node (a non-empty string as name, a type, a position
  object) and whose \<open>connections\<close> is the empty object is valid, with no error and no
  isolated-node suggestion. Every isolated-node suggestion in a result is justified: the
  parsed workflow has a \<open>nodes\<close> array of more than one node, and the suggestion shows
  the name of one of these nodes whose name is neither a key of \<open>connections\<close> (a source)
  nor the \<open>node\<close> of an entry of a link list under some key of \<open>connections\<close> (a
  target).
\<close>

theorem n8n_examples_and_isolation_rule:
  \<open>(jsonParse rt ''{"nodes": [], "connections": {}}'' =
       Inr (JObj [(''nodes'', JArr []), (''connections'', JObj [])]) \<longrightarrow>
     validateOutput rt ''{"nodes": [], "connections": {}}'' ''n8n'' =
       \<lparr>isValid = False, errors = [''n8n workflow must contain at least one node''],
        suggestions = []\<rparr>)
   \<and> (jsonParse rt c = Inr workflow \<and> getProp workflow ''nodes'' = Val (JArr [node])
        \<and> getProp workflow ''connections'' = Val (JObj [])
        \<and> getProp node ''name'' = Val (JStr n) \<and> n \<noteq> [] \<and> truthy (getProp node ''type'')
        \<and> getProp node ''position'' = Val (JObj p) \<longrightarrow>
        isValid (validateOutput rt c ''n8n'') \<and> errors (validateOutput rt c ''n8n'') = []
        \<and> \<not> list_ex isIsolatedSuggestion (suggestions (validateOutput rt c ''n8n'')))
   \<and> (s \<in> set (suggestions (validateOutput rt c' ''n8n'')) \<and> isIsolatedSuggestion s \<longrightarrow>
        (\<exists>parsed ns. jsonParse rt c' = Inr parsed \<and> getProp parsed ''nodes'' = Val (JArr ns)
           \<and> 1 < length ns
           \<and> (\<exists>x\<in>set ns.
                 \<not> appearsInConnections (getProp parsed ''connections'') (getProp x ''name'')
                 \<and> (\<exists>shown. toStr rt (getProp x ''name'') = Inr shown \<and> s = isolatedMessage shown))))\<close>
proof -
  have v: "validateOutput rt x ''n8n'' = validateN8nWorkflow rt x" for x
    by (simp add: validateOutput_def)
  have single: "isValid (validateN8nWorkflow rt c) \<and> errors (validateN8nWorkflow rt c) = []
      \<and> \<not> list_ex isIsolatedSuggestion (suggestions (validateN8nWorkflow rt c))"
    if "jsonParse rt c = Inr workflow" "getProp workflow ''nodes'' = Val (JArr [node])"
      "getProp workflow ''connections'' = Val (JObj [])"
      "getProp node ''name'' = Val (JStr n)" "n \<noteq> []" "truthy (getProp node ''type'')"
      "getProp node ''position'' = Val (JObj p)"
  proof -
    have "\<not> list_ex isIsolatedSuggestion (suggestions (validateN8nWorkflow rt c))"
      using isolated_suggestion_justified [of _ rt c] that(1,2) by (auto simp: list_ex_iff)
    then show ?thesis
      using n8n_single_node [OF that] by simp
  qed
  show ?thesis
    unfolding v using n8n_no_nodes single isolated_suggestion_justified [of s rt c'] by blast
qed

theorem n8n_examples_and_isolation_rule_witness:
  \<open>validateOutput exampleRuntime ''{"nodes": [], "connections": {}}'' ''n8n'' =
     \<lparr>isValid = False, errors = [''n8n workflow must contain at least one node''], suggestions = []\<rparr>
   \<and> isValid (validateOutput exampleRuntime
        ''{"nodes":[{"name":"A","type":"t","position":{"x":0,"y":0}}], "connections":{}}'' ''n8n'')
   \<and> \<not> list_ex isIsolatedSuggestion (suggestions (validateOutput exampleRuntime
        ''{"nodes":[{"name":"A","type":"t","position":{"x":0,"y":0}}], "connections":{}}'' ''n8n''))
   \<and> suggestions (validateOutput exampleRuntime linkedWorkflowText ''n8n'') = [isolatedMessage ''C'']
   \<and> isIsolatedSuggestion (isolatedMessage ''C'')
   \<and> appearsInConnections (getProp linkedWorkflow ''connections'') (Val (JStr ''A''))
   \<and> appearsInConnections (getProp linkedWorkflow ''connections'') (Val (JStr ''B''))
   \<and> \<not> appearsInConnections (getProp linkedWorkflow ''connections'') (Val (JStr ''C''))
   \<and> (\<exists>parsed ns. jsonParse exampleRuntime linkedWorkflowText = Inr parsed
        \<and> getProp parsed ''nodes'' = Val (JArr ns) \<and> 1 < length ns
        \<and> (\<exists>x\<in>set ns.
              \<not> appearsInConnections (getProp parsed ''connections'') (getProp x ''name'')
              \<and> (\<exists>shown. toStr exampleRuntime (getProp x ''name'') = Inr shown
                    \<and> isolatedMessage ''C'' = isolatedMessage shown)))\<close>
proof -
  let ?one = \<open>''{"nodes":[{"name":"A","type":"t","position":{"x":0,"y":0}}], "connections":{}}''\<close>
  let ?node = "JObj [(''name'', JStr ''A''), (''type'', JStr ''t''),
                     (''position'', JObj [(''x'', JNum 0), (''y'', JNum 0)])]"
  let ?flow = "JObj [(''nodes'', JArr [?node]), (''connections'', JObj [])]"
  have h1: \<open>jsonParse exampleRuntime ''{"nodes": [], "connections": {}}'' =
       Inr (JObj [(''nodes'', JArr []), (''connections'', JObj [])])\<close>
    by (simp add: exampleRuntime_def exampleParse_def)
  have h2: "jsonParse exampleRuntime ?one = Inr ?flow \<and> getProp ?flow ''nodes'' = Val (JArr [?node])
        \<and> getProp ?flow ''connections'' = Val (JObj [])
        \<and> getProp ?node ''name'' = Val (JStr ''A'') \<and> ''A'' \<noteq> [] \<and> truthy (getProp ?node ''type'')
        \<and> getProp ?node ''position'' = Val (JObj [(''x'', JNum 0), (''y'', JNum 0)])"
    by code_simp
  have h3: "suggestions (validateOutput exampleRuntime linkedWorkflowText ''n8n'') = [isolatedMessage ''C'']"
    using linked_example by (simp add: validateOutput_def)
  have h4: "isolatedMessage ''C'' \<in> set (suggestions (validateOutput exampleRuntime linkedWorkflowText ''n8n''))"
    unfolding h3 by simp
  show ?thesis
    using n8n_examples_and_isolation_rule [of exampleRuntime ?one ?flow ?node "''A''"
        "[(''x'', JNum 0), (''y'', JNum 0)]" "isolatedMessage ''C''" linkedWorkflowText]
      h1 h2 h3 h4 isIsolated_isolatedMessage [of "''C''"] linked_example_appears
    by blast
qed

section \<open>Properties of generateCode\<close>

lemma generateCode_no_context:
  assumes "retrieveContext (services env) (request gr) (versionId gr) 5 = Inr []"
  shows "generateCode env gr = (Inl noContextMessage, [RetrieveContext (request gr) (versionId gr) 5])"
  using assms by (simp add: generateCode_def)

lemma generateCode_completion_needs_context:
  assumes "GenerateCompletion s u t \<in> set (snd (generateCode env gr))"
  shows "\<exists>chunks. retrieveContext (services env) (request gr) (versionId gr) 5 = Inr chunks \<and> chunks \<noteq> []"
  using assms
  by (auto simp: generateCode_def Let_def split: sum.splits if_splits prod.splits)

lemma generateCode_success:
  assumes "retrieveContext (services env) (request gr) (versionId gr) 5 = Inr chunks" "chunks \<noteq> []"
    "buildPrompts (outputType gr) (buildContextString chunks) (request gr) = Inr (sys, usr)"
    "outcome (generateCompletion (llmService env sys usr (7 / 10))) = Inr resp"
  shows "fst (generateCode env gr) =
           Inr \<lparr>generatedCode = content resp,
                metadata = \<lparr>metaTokensUsed = tokensUsed resp, processingTime = endTime env - startTime env,
                            contextFiles = distinctInOrder (map source chunks), metaModel = model resp\<rparr>,
                validation = validateOutput (runtime env) (content resp) (outputType gr)\<rparr>"
  using assms by (simp add: generateCode_def Let_def)

text \<open>
  C6. When \<open>retrieveContext\<close> returns the empty list, \<open>generateCode\<close> throws the
  no-context error and the only call it has made is the retrieval: no prompt is built and
  the completion client is not called. Whenever a run of \<open>generateCode\<close> calls the
  completion client, the retrieval of that run returned a non-empty list.
\<close>

theorem no_context_stops_before_prompts_and_completion:
  "(retrieveContext (services env) (request gr) (versionId gr) 5 = Inr [] \<longrightarrow>
      fst (generateCode env gr) = Inl noContextMessage
      \<and> snd (generateCode env gr) = [RetrieveContext (request gr) (versionId gr) 5]
      \<and> BuildPrompts (outputType gr) \<notin> set (snd (generateCode env gr))
      \<and> GenerateCompletion s u t \<notin> set (snd (generateCode env gr)))
   \<and> (GenerateCompletion s' u' t' \<in> set (snd (generateCode env' gr')) \<longrightarrow>
        (\<exists>chunks. retrieveContext (services env') (request gr') (versionId gr') 5 = Inr chunks
                  \<and> chunks \<noteq> []))"
  using generateCode_no_context [of env gr]
    generateCode_completion_needs_context [of s' u' t' env' gr']
  by auto

theorem no_context_stops_before_prompts_and_completion_witness:
  "retrieveContext (services emptyIndexEnvironment) (request exampleRequest) (versionId exampleRequest) 5 = Inr []
   \<and> generateCode emptyIndexEnvironment exampleRequest =
       (Inl noContextMessage, [RetrieveContext ''get all orders'' ''V'' 5])
   \<and> GenerateCompletion (systemPrompt sqlTemplate)
        (buildUserPrompt sqlTemplate
           ''[Source: orders.sql, Relevance: 0.900]\<newline>CREATE TABLE orders (id INT, customer_id INT, total INT);''
           ''get all orders'') (7 / 10)
       \<in> set (snd (generateCode (exampleEnvironment ''SELECT * FROM orders'') exampleRequest))
   \<and> (\<exists>chunks. retrieveContext (services (exampleEnvironment ''SELECT * FROM orders''))
                  (request exampleRequest) (versionId exampleRequest) 5 = Inr chunks \<and> chunks \<noteq> [])"
proof -
  have h1: "retrieveContext (services emptyIndexEnvironment) (request exampleRequest)
              (versionId exampleRequest) 5 = Inr []"
    by code_simp
  have h2: "GenerateCompletion (systemPrompt sqlTemplate)
        (buildUserPrompt sqlTemplate
           ''[Source: orders.sql, Relevance: 0.900]\<newline>CREATE TABLE orders (id INT, customer_id INT, total INT);''
           ''get all orders'') (7 / 10)
       \<in> set (snd (generateCode (exampleEnvironment ''SELECT * FROM orders'') exampleRequest))"
    by code_simp
  have r: "request exampleRequest = ''get all orders''" "versionId exampleRequest = ''V''"
    by (simp_all add: exampleRequest_def)
  show ?thesis
    using no_context_stops_before_prompts_and_completion [of emptyIndexEnvironment exampleRequest
        "systemPrompt sqlTemplate" "[]" "7 / 10" "systemPrompt sqlTemplate"
        "buildUserPrompt sqlTemplate
           ''[Source: orders.sql, Relevance: 0.900]\<newline>CREATE TABLE orders (id INT, customer_id INT, total INT);''
           ''get all orders''" "7 / 10" "exampleEnvironment ''SELECT * FROM orders''" exampleRequest]
      h1 h2
    by (simp add: r prod_eq_iff)
qed

text \<open>
  C7. When the retrieval returns a non-empty list, the prompts are built and the
  completion client returns a response, \<open>generateCode\<close> returns a result that holds the
  generated code and the validation result of that code, whatever the validation result
  says: a failed validation is part of the value returned and nothing is thrown.
\<close>

theorem invalid_output_is_still_returned:
  "retrieveContext (services env) (request gr) (versionId gr) 5 = Inr chunks \<and> chunks \<noteq> []
   \<and> buildPrompts (outputType gr) (buildContextString chunks) (request gr) = Inr (sys, usr)
   \<and> outcome (generateCompletion (llmService env sys usr (7 / 10))) = Inr resp \<longrightarrow>
   fst (generateCode env gr) =
     Inr \<lparr>generatedCode = content resp,
          metadata = \<lparr>metaTokensUsed = tokensUsed resp, processingTime = endTime env - startTime env,
                      contextFiles = distinctInOrder (map source chunks), metaModel = model resp\<rparr>,
          validation = validateOutput (runtime env) (content resp) (outputType gr)\<rparr>"
  using generateCode_success [of env gr chunks sys usr resp] by blast

theorem invalid_output_is_still_returned_witness:
  "fst (generateCode (exampleEnvironment ''SELECT * WHERE x=1'') exampleRequest) =
     Inr \<lparr>generatedCode = ''SELECT * WHERE x=1'',
          metadata = \<lparr>metaTokensUsed = 42, processingTime = 850, contextFiles = [''orders.sql''],
                      metaModel = ''gpt-4-turbo-preview''\<rparr>,
          validation = \<lparr>isValid = False, errors = [''SELECT statement missing FROM clause''],
                        suggestions = [''Add a FROM clause to specify the table(s) to query'']\<rparr>\<rparr>"
proof -
  let ?env = "exampleEnvironment ''SELECT * WHERE x=1''"
  let ?chunks = "[\<lparr>chunkContent = ''CREATE TABLE orders (id INT, customer_id INT, total INT);'',
                   source = ''orders.sql'', relevanceScore = 9 / 10, metaVersionId = ''V'',
                   metaFileId = ''f1'', metaFilename = ''orders.sql''\<rparr>]"
  let ?resp = "\<lparr>content = ''SELECT * WHERE x=1'', tokensUsed = 42, model = ''gpt-4-turbo-preview''\<rparr>"
  let ?sys = "systemPrompt sqlTemplate"
  let ?usr = "buildUserPrompt sqlTemplate (buildContextString ?chunks) ''get all orders''"
  have h1: "retrieveContext (services ?env) (request exampleRequest) (versionId exampleRequest) 5 = Inr ?chunks"
    by code_simp
  have h2: "buildPrompts (outputType exampleRequest) (buildContextString ?chunks) (request exampleRequest)
              = Inr (?sys, ?usr)"
    by (simp add: exampleRequest_def buildPrompts_def getPromptTemplate_def)
  have h3: "outcome (generateCompletion (llmService ?env ?sys ?usr (7 / 10))) = Inr ?resp"
    by (simp add: exampleEnvironment_def generateCompletion_def retryLoop_answer retryConfig_def
        toLLMResponse_def)
  have v: "validateOutput (runtime ?env) ''SELECT * WHERE x=1'' (outputType exampleRequest) =
             \<lparr>isValid = False, errors = [''SELECT statement missing FROM clause''],
              suggestions = [''Add a FROM clause to specify the table(s) to query'']\<rparr>"
    by (simp add: exampleRequest_def validateOutput_sql sql_example_missing_from)
  have t: "endTime ?env - startTime ?env = 850"
    by (simp add: exampleEnvironment_def)
  have f: "distinctInOrder (map source ?chunks) = [''orders.sql'']"
    by simp
  have "fst (generateCode ?env exampleRequest) =
     Inr \<lparr>generatedCode = content ?resp,
          metadata = \<lparr>metaTokensUsed = tokensUsed ?resp, processingTime = endTime ?env - startTime ?env,
                      contextFiles = distinctInOrder (map source ?chunks), metaModel = model ?resp\<rparr>,
          validation = validateOutput (runtime ?env) (content ?resp) (outputType exampleRequest)\<rparr>"
    using invalid_output_is_still_returned [of ?env exampleRequest ?chunks ?sys ?usr ?resp] h1 h2 h3
    by blast
  then show ?thesis
    using v by (simp add: t)
qed

end
